theory Spec2Isabelle
  imports Main
begin

section \<open>JavaScript strings\<close>

text \<open>
  A JavaScript string is a sequence of UTF-16 code units. Text whose characters the
  handlers inspect (\<^verbatim>\<open>trim\<close>, \<^verbatim>\<open>toLowerCase\<close>, \<^verbatim>\<open>decodeURIComponent\<close>) or test for
  truthiness is a list of code units, each a natural number. Identifiers (user ids, college
  ids), which are only compared, and the literal messages of the replies are \<open>string\<close>s.
\<close>

type_synonym jsstring = "nat list"

definition utf16 :: "string \<Rightarrow> jsstring" where
  \<comment> \<open>the code units of a literal\<close>
  "utf16 s = map of_char s"

definition is_white_space :: "nat \<Rightarrow> bool" where
  \<comment> \<open>ECMAScript WhiteSpace and LineTerminator code units, what \<^verbatim>\<open>trim\<close> strips\<close>
  "is_white_space c =
     (c = 9 \<or> c = 10 \<or> c = 11 \<or> c = 12 \<or> c = 13 \<or> c = 32 \<or> c = 160 \<or> c = 5760 \<or>
      (8192 \<le> c \<and> c \<le> 8202) \<or> c = 8232 \<or> c = 8233 \<or> c = 8239 \<or> c = 8287 \<or>
      c = 12288 \<or> c = 65279)"

definition trim :: "jsstring \<Rightarrow> jsstring" where
  "trim s = rev (dropWhile is_white_space (rev (dropWhile is_white_space s)))"

definition truthy :: "jsstring option \<Rightarrow> bool" where
  \<comment> \<open>a string value is falsy when it is \<^verbatim>\<open>null\<close>, \<^verbatim>\<open>undefined\<close> or empty\<close>
  "truthy v = (case v of None \<Rightarrow> False | Some s \<Rightarrow> s \<noteq> [])"

definition or_str :: "jsstring option \<Rightarrow> jsstring \<Rightarrow> jsstring" where
  \<comment> \<open>\<^verbatim>\<open>v || d\<close> with a string default\<close>
  "or_str v d = (case v of None \<Rightarrow> d | Some s \<Rightarrow> if s = [] then d else s)"

definition or_opt :: "jsstring option \<Rightarrow> jsstring option \<Rightarrow> jsstring option" where
  \<comment> \<open>\<^verbatim>\<open>a || b\<close> on two optional strings\<close>
  "or_opt a b = (if truthy a then a else b)"

subsection \<open>decodeURIComponent\<close>

text \<open>
  The ECMAScript \<^verbatim>\<open>Decode\<close> operation with an empty reserved set. \<open>None\<close> is the
  \<^verbatim>\<open>URIError\<close> it throws: a \<^verbatim>\<open>%\<close> not followed by two hexadecimal digits, or escaped
  octets that are not the UTF-8 encoding of a code point.
\<close>

definition hex_val :: "nat \<Rightarrow> nat option" where
  "hex_val c =
     (if 48 \<le> c \<and> c \<le> 57 then Some (c - 48)
      else if 65 \<le> c \<and> c \<le> 70 then Some (c - 55)
      else if 97 \<le> c \<and> c \<le> 102 then Some (c - 87)
      else None)"

fun percent_octet :: "jsstring \<Rightarrow> (nat \<times> jsstring) option" where
  "percent_octet (p # h1 # h2 # rest) =
     (if p = 37 then
        (case hex_val h1 of
           None \<Rightarrow> None
         | Some a \<Rightarrow> (case hex_val h2 of None \<Rightarrow> None | Some b \<Rightarrow> Some (16 * a + b, rest)))
      else None)"
| "percent_octet _ = None"

fun decode_octets :: "nat \<Rightarrow> jsstring \<Rightarrow> (nat list \<times> jsstring) option" where
  "decode_octets 0 s = Some ([], s)"
| "decode_octets (Suc n) s =
     (case percent_octet s of
        None \<Rightarrow> None
      | Some (b, rest) \<Rightarrow>
          (case decode_octets n rest of
             None \<Rightarrow> None
           | Some (bs, rest') \<Rightarrow> Some (b # bs, rest')))"

definition leading_ones :: "nat \<Rightarrow> nat" where
  \<comment> \<open>the number of leading 1 bits of an octet\<close>
  "leading_ones b =
     (if b < 128 then 0 else if b < 192 then 1 else if b < 224 then 2
      else if b < 240 then 3 else if b < 248 then 4 else 5)"

definition continuation :: "nat \<Rightarrow> bool" where
  "continuation b = (128 \<le> b \<and> b < 192)"

fun utf8_code_point :: "nat list \<Rightarrow> nat option" where
  "utf8_code_point [b0, b1] =
     (let v = (b0 - 192) * 64 + (b1 - 128)
      in if continuation b1 \<and> 128 \<le> v then Some v else None)"
| "utf8_code_point [b0, b1, b2] =
     (let v = (b0 - 224) * 4096 + (b1 - 128) * 64 + (b2 - 128)
      in if continuation b1 \<and> continuation b2 \<and> 2048 \<le> v \<and> \<not> (55296 \<le> v \<and> v \<le> 57343)
         then Some v else None)"
| "utf8_code_point [b0, b1, b2, b3] =
     (let v = (b0 - 240) * 262144 + (b1 - 128) * 4096 + (b2 - 128) * 64 + (b3 - 128)
      in if continuation b1 \<and> continuation b2 \<and> continuation b3 \<and> 65536 \<le> v \<and> v \<le> 1114111
         then Some v else None)"
| "utf8_code_point _ = None"

definition utf16_encode :: "nat \<Rightarrow> jsstring" where
  "utf16_encode v =
     (if v < 65536 then [v]
      else [55296 + (v - 65536) div 1024, 56320 + (v - 65536) mod 1024])"

lemma percent_octet_length:
  "percent_octet s = Some (b, rest) \<Longrightarrow> length rest < length s"
  by (induction s rule: percent_octet.induct) (auto split: if_splits option.splits)

lemma decode_octets_length:
  "decode_octets n s = Some (bs, rest) \<Longrightarrow> length rest \<le> length s"
proof (induction n arbitrary: s bs rest)
  case 0
  then show ?case by simp
next
  case (Suc n)
  then show ?case
    by (fastforce split: option.splits prod.splits dest: percent_octet_length)
qed

function decodeURIComponent :: "jsstring \<Rightarrow> jsstring option" where
  "decodeURIComponent [] = Some []"
| "decodeURIComponent (c # cs) =
     (if c \<noteq> 37 then map_option ((#) c) (decodeURIComponent cs)
      else
        (case percent_octet (c # cs) of
           None \<Rightarrow> None
         | Some (b, rest) \<Rightarrow>
             if leading_ones b = 0 then map_option ((#) b) (decodeURIComponent rest)
             else if leading_ones b = 1 \<or> 4 < leading_ones b then None
             else
               (case decode_octets (leading_ones b - 1) rest of
                  None \<Rightarrow> None
                | Some (bs, rest') \<Rightarrow>
                    (case utf8_code_point (b # bs) of
                       None \<Rightarrow> None
                     | Some v \<Rightarrow>
                         map_option ((@) (utf16_encode v)) (decodeURIComponent rest')))))"
  by pat_completeness auto
termination
proof (relation "measure length")
  show "wf (measure length)" by simp
next
  fix c :: nat and cs :: jsstring
  show "(cs, c # cs) \<in> measure length" by simp
next
  fix c :: nat and cs x2 :: "jsstring" and x y
  assume "percent_octet (c # cs) = Some x" and "(y, x2) = x"
  then have "percent_octet (c # cs) = Some (y, x2)" by simp
  then show "(x2, c # cs) \<in> measure length"
    using percent_octet_length by fastforce
next
  fix c :: nat and cs :: jsstring and x2 x y x2a xa ya
    and yb :: jsstring
  assume p: "percent_octet (c # cs) = Some x2" "(x, y) = x2"
    and d: "decode_octets (leading_ones x - 1) y = Some x2a" "(xa, yb) = x2a"
  from p have "length y < length (c # cs)"
    using percent_octet_length [of "c # cs" x y] by simp
  moreover from d have "length yb \<le> length y"
    using decode_octets_length [of "leading_ones x - 1" y xa yb] by simp
  ultimately show "(yb, c # cs) \<in> measure length" by simp
qed

section \<open>Data model\<close>

text \<open>
  The rows of the relational store, with the columns the handlers read and write. A user
  id comes from the identity service; the ids the store generates for its own rows are
  drawn from a counter. Times are milliseconds.
\<close>

type_synonym user_id = string
type_synonym college_id = string
type_synonym row_id = nat
type_synonym time = nat

record profile =
  profile_id :: row_id
  userId :: user_id
  name :: "jsstring option"
  bio :: "jsstring option"
  skills :: "jsstring list"
  expertise :: "jsstring list"
  linkedIn :: "jsstring option"
  github :: "jsstring option"
  twitter :: "jsstring option"
  resumeUrl :: "jsstring option"
  contactInfo :: "jsstring option"
  phoneNumber :: "jsstring option"
  alternateEmail :: "jsstring option"
  department :: "jsstring option"
  year :: "nat option"
  createdAt :: time

record project_data =
  title :: jsstring
  description :: jsstring
  project_github :: "jsstring option"
  demoLink :: "jsstring option"
  project_image :: "jsstring option"

record personal_project =
  project_id :: row_id
  project_userId :: user_id
  project_fields :: project_data

record publication_data =
  publication_title :: jsstring
  publication_year :: nat
  link :: "jsstring option"

record publication =
  publication_id :: row_id
  publication_userId :: user_id
  publication_fields :: publication_data

datatype level = Beginner | Intermediate | Advanced | Expert

record experience_data =
  area :: jsstring
  experience_level :: level
  yearsExp :: "nat option"
  experience_description :: "jsstring option"

record experience =
  experience_id :: row_id
  experience_userId :: user_id
  experience_fields :: experience_data

datatype rarity = COMMON | UNCOMMON | RARE | EPIC | LEGENDARY

record badge_definition =
  badge_name :: jsstring
  badge_description :: jsstring
  icon :: "jsstring option"
  color :: "jsstring option"
  category :: "jsstring option"
  criteria :: "jsstring option"
  badge_rarity :: rarity
  createdBy :: user_id
  isActive :: bool

record student_badge =
  award_id :: row_id
  studentId :: user_id
  badgeId :: row_id
  awardedBy :: user_id
  awardedByName :: "jsstring option"
  reason :: jsstring
  projectId :: "row_id option"
  eventId :: "row_id option"
  awardedAt :: time

record badge_policy =
  policy_collegeId :: college_id
  departmentId :: "jsstring option"
  eventCreationRequired :: int
  categoryDiversityMin :: int

record eligibility_cache =
  cache_userId :: user_id
  canCreate :: bool
  badgeCount :: nat
  categories :: "jsstring list"
  lastChecked :: time
  expiresAt :: time

text \<open>
  The store. The tables read by a unique key (one profile per user, one policy per
  college, one cache row per user, a badge definition by its id) are maps from that key;
  the others are lists of rows.
\<close>

record store =
  profiles :: "user_id \<rightharpoonup> profile"
  personalProjects :: "personal_project list"
  publications :: "publication list"
  experiences :: "experience list"
  badgeDefinitions :: "row_id \<rightharpoonup> badge_definition"
  studentBadges :: "student_badge list"
  badgePolicies :: "college_id \<rightharpoonup> badge_policy"
  badgeEligibilityCache :: "user_id \<rightharpoonup> eligibility_cache"
  next_id :: row_id

definition empty_store :: store where
  "empty_store =
     \<lparr>profiles = Map.empty, personalProjects = [], publications = [], experiences = [],
      badgeDefinitions = Map.empty, studentBadges = [], badgePolicies = Map.empty,
      badgeEligibilityCache = Map.empty, next_id = 0\<rparr>"

datatype js_error = URIError | TypeError | StoreError

text \<open>
  What a handler leaves behind: a reply with its status code, or an exception nothing
  catches.
\<close>

datatype 'a outcome = Reply nat 'a | Threw js_error

definition new_profile :: "row_id \<Rightarrow> user_id \<Rightarrow> time \<Rightarrow> profile" where
  \<comment> \<open>the row of \<^verbatim>\<open>create: { userId, skills: [], expertise: [] }\<close>\<close>
  "new_profile i uid now =
     \<lparr>profile_id = i, userId = uid, name = None, bio = None, skills = [], expertise = [],
      linkedIn = None, github = None, twitter = None, resumeUrl = None, contactInfo = None,
      phoneNumber = None, alternateEmail = None, department = None, year = None,
      createdAt = now\<rparr>"

definition profile_upsert ::
  "store \<Rightarrow> time \<Rightarrow> user_id \<Rightarrow> (profile \<Rightarrow> profile) \<Rightarrow> (profile \<Rightarrow> profile) \<Rightarrow> store \<times> profile" where
  \<comment> \<open>\<^verbatim>\<open>prisma.profile.upsert\<close>: \<open>upd\<close> on the existing row, \<open>cre\<close> on a fresh one\<close>
  "profile_upsert s now uid upd cre =
     (case profiles s uid of
        Some p \<Rightarrow> (s\<lparr>profiles := (profiles s)(uid \<mapsto> upd p)\<rparr>, upd p)
      | None \<Rightarrow>
          (s\<lparr>profiles := (profiles s)(uid \<mapsto> cre (new_profile (next_id s) uid now)),
             next_id := Suc (next_id s)\<rparr>,
           cre (new_profile (next_id s) uid now)))"

section \<open>Skills\<close>

datatype skills_body = Skills "jsstring list" | Message string

definition current_skills :: "store \<Rightarrow> user_id \<Rightarrow> jsstring list" where
  \<comment> \<open>\<^verbatim>\<open>profile?.skills || []\<close>\<close>
  "current_skills s uid = (case profiles s uid of None \<Rightarrow> [] | Some p \<Rightarrow> skills p)"

definition put_skills ::
  "store \<Rightarrow> time \<Rightarrow> user_id \<Rightarrow> jsstring list \<Rightarrow> skills_body outcome \<times> store" where
  \<comment> \<open>\<^verbatim>\<open>PUT /v1/profile/me/skills\<close>\<close>
  "put_skills s now uid body_skills =
     (let cleanedSkills = take 50 (filter (\<lambda>skill. 0 < length skill) (map trim body_skills));
          (s', p) = profile_upsert s now uid (\<lambda>p. p\<lparr>skills := cleanedSkills\<rparr>)
                      (\<lambda>p. p\<lparr>skills := cleanedSkills\<rparr>)
      in (Reply 200 (Skills (skills p)), s'))"

definition post_skill ::
  "(jsstring \<Rightarrow> jsstring) \<Rightarrow> store \<Rightarrow> time \<Rightarrow> user_id \<Rightarrow> jsstring \<Rightarrow> skills_body outcome \<times> store" where
  \<comment> \<open>\<^verbatim>\<open>POST /v1/profile/me/skills\<close>; the built-in \<^verbatim>\<open>toLowerCase\<close> is a parameter\<close>
  "post_skill toLowerCase s now uid skill =
     (let cleanedSkill = trim skill in
      if cleanedSkill = [] then (Reply 400 (Message ''Skill cannot be empty''), s)
      else
        let currentSkills = current_skills s uid in
        if list_ex (\<lambda>x. toLowerCase x = toLowerCase cleanedSkill) currentSkills
        then (Reply 400 (Message ''Skill already exists''), s)
        else if 50 \<le> length currentSkills
        then (Reply 400 (Message ''Maximum 50 skills allowed''), s)
        else
          let updatedSkills = currentSkills @ [cleanedSkill];
              (s', p) = profile_upsert s now uid (\<lambda>p. p\<lparr>skills := updatedSkills\<rparr>)
                          (\<lambda>p. p\<lparr>skills := updatedSkills\<rparr>)
          in (Reply 200 (Skills (skills p)), s'))"

definition delete_skill ::
  "store \<Rightarrow> time \<Rightarrow> user_id \<Rightarrow> jsstring \<Rightarrow> skills_body outcome \<times> store" where
  \<comment> \<open>\<^verbatim>\<open>DELETE /v1/profile/me/skills/:skill\<close>\<close>
  "delete_skill s now uid skill =
     (case decodeURIComponent skill of
        None \<Rightarrow> (Threw URIError, s)
      | Some decodedSkill \<Rightarrow>
          let currentSkills = current_skills s uid;
              updatedSkills = filter (\<lambda>x. x \<noteq> decodedSkill) currentSkills;
              (s', p) = profile_upsert s now uid (\<lambda>p. p\<lparr>skills := updatedSkills\<rparr>)
                          (\<lambda>p. p\<lparr>skills := updatedSkills\<rparr>)
          in (Reply 200 (Skills (skills p)), s'))"

text \<open>
  The bulk update in the words of its description: the first 50 entries, in submission
  order, of the submitted list with every entry trimmed and the empty ones dropped.
\<close>

fun spec_cleaned :: "nat \<Rightarrow> jsstring list \<Rightarrow> jsstring list" where
  "spec_cleaned 0 xs = []"
| "spec_cleaned (Suc n) [] = []"
| "spec_cleaned (Suc n) (x # xs) =
     (if trim x = [] then spec_cleaned (Suc n) xs else trim x # spec_cleaned n xs)"

section \<open>Identity gateway\<close>

text \<open>
  A call to the identity service through axios: the promise resolves with the body of a
  2xx response, and rejects with the status of any other response, or with no response
  at all on a timeout or a network error.
\<close>

datatype 'a http = Ok2xx 'a | HttpError nat | NoResponse

record user_info =
  displayName :: "jsstring option"
  user_name :: "jsstring option"
  email :: "jsstring option"
  avatarUrl :: "jsstring option"
  collegeId :: "college_id option"
  collegeMemberId :: "jsstring option"
  user_department :: "jsstring option"
  user_year :: "nat option"
  roles :: "string list option"
  user_createdAt :: "time option"

record user_response =
  user :: "user_info option"

record college_response =
  college_name :: "jsstring option"

text \<open>The body of a response may be missing, hence the \<open>option\<close>.\<close>

record gateway =
  get_user :: "user_id \<Rightarrow> user_response option http"
  get_college :: "college_id \<Rightarrow> college_response option http"

definition truthy_id :: "string option \<Rightarrow> bool" where
  "truthy_id v = (case v of None \<Rightarrow> False | Some i \<Rightarrow> i \<noteq> [])"

section \<open>Badge eligibility\<close>

datatype eligibility_body =
    Eligibility_cached bool nat "jsstring list" time
      \<comment> \<open>\<^verbatim>\<open>canCreate, badgeCount, categories, lastChecked\<close>\<close>
  | Eligibility_fresh bool nat int "jsstring list" int time
      \<comment> \<open>\<^verbatim>\<open>canCreate, badgeCount, requiredBadges, categories, requiredCategories, lastChecked\<close>\<close>
  | No_college
      \<comment> \<open>\<^verbatim>\<open>error: "User college information not found", canCreate: false, missing: []\<close>\<close>
  | Check_failed
      \<comment> \<open>\<^verbatim>\<open>error: "Failed to check badge eligibility", canCreate: false\<close>\<close>

text \<open>The calls a request makes, in order: to the gateway and to the tables.\<close>

datatype query =
    Users_get user_id
  | Cache_find user_id
  | Policy_find college_id
  | Awards_find user_id
  | Cache_upsert user_id

definition new_Set :: "'a list \<Rightarrow> 'a list" where
  \<comment> \<open>\<^verbatim>\<open>[...new Set(xs)]\<close>: the distinct elements, each where it first occurs\<close>
  "new_Set xs = rev (remdups (rev xs))"

definition or_int :: "int option \<Rightarrow> int \<Rightarrow> int" where
  \<comment> \<open>\<^verbatim>\<open>v || d\<close> on a number: \<^verbatim>\<open>undefined\<close> and 0 are falsy\<close>
  "or_int v d = (case v of None \<Rightarrow> d | Some n \<Rightarrow> if n = 0 then d else n)"

definition find_user_badges :: "store \<Rightarrow> user_id \<Rightarrow> (student_badge \<times> badge_definition) list option" where
  \<comment> \<open>\<^verbatim>\<open>studentBadge.findMany\<close> for a student, each award with its badge definition;
      \<open>None\<close> when an award names no definition, which the client reports as an error\<close>
  "find_user_badges s uid =
     those (map (\<lambda>award. map_option (Pair award) (badgeDefinitions s (badgeId award)))
              (filter (\<lambda>award. studentId award = uid) (studentBadges s)))"

definition fresh_eligibility ::
  "store \<Rightarrow> time \<Rightarrow> user_id \<Rightarrow> college_id \<Rightarrow> eligibility_body outcome \<times> store \<times> query list" where
  \<comment> \<open>the handler from \<^verbatim>\<open>badgePolicy.findUnique\<close> on: the computation on a cache miss\<close>
  "fresh_eligibility s now uid cid =
     (let policy = badgePolicies s cid;
          requiredBadges = or_int (map_option eventCreationRequired policy) 8;
          requiredCategories = or_int (map_option categoryDiversityMin policy) 4
      in
      (case find_user_badges s uid of
         None \<Rightarrow>
           (Reply 500 Check_failed, s,
            [Users_get uid, Cache_find uid, Policy_find cid, Awards_find uid])
       | Some userBadges \<Rightarrow>
           let activeBadges = filter (\<lambda>award. isActive (snd award)) userBadges;
               cats = new_Set (map the (filter truthy
                        (map (\<lambda>award. category (snd award)) activeBadges)));
               can = (requiredBadges \<le> int (length activeBadges) \<and>
                      requiredCategories \<le> int (length cats));
               row = \<lparr>cache_userId = uid, canCreate = can,
                      badgeCount = length activeBadges, categories = cats,
                      lastChecked = now, expiresAt = now + 30 * 60 * 1000\<rparr>
           in
           (Reply 200 (Eligibility_fresh can (length activeBadges) requiredBadges cats
              requiredCategories now),
            s\<lparr>badgeEligibilityCache := (badgeEligibilityCache s)(uid \<mapsto> row)\<rparr>,
            [Users_get uid, Cache_find uid, Policy_find cid, Awards_find uid,
             Cache_upsert uid])))"

definition get_eligibility ::
  "gateway \<Rightarrow> store \<Rightarrow> time \<Rightarrow> user_id \<Rightarrow> eligibility_body outcome \<times> store \<times> query list" where
  \<comment> \<open>\<^verbatim>\<open>GET /v1/badges/eligibility/:userId\<close>; every failure inside is caught and answered 500\<close>
  "get_eligibility gw s now uid =
     (case get_user gw uid of
        Ok2xx data \<Rightarrow>
          (case Option.bind (Option.bind data user) collegeId of
             None \<Rightarrow> (Reply 400 No_college, s, [Users_get uid])
           | Some cid \<Rightarrow>
               if cid = [] then (Reply 400 No_college, s, [Users_get uid])
               else
                 (case badgeEligibilityCache s uid of
                    None \<Rightarrow> fresh_eligibility s now uid cid
                  | Some cached \<Rightarrow>
                      if now < expiresAt cached
                      then
                        (Reply 200 (Eligibility_cached (canCreate cached) (badgeCount cached)
                           (categories cached) (lastChecked cached)),
                         s, [Users_get uid, Cache_find uid])
                      else fresh_eligibility s now uid cid))
      | HttpError status \<Rightarrow> (Reply 500 Check_failed, s, [Users_get uid])
      | NoResponse \<Rightarrow> (Reply 500 Check_failed, s, [Users_get uid]))"

text \<open>
  The quantities of the eligibility rule in the words of its description: the awards of
  a user whose badge definition is active, the distinct categories among them, and the
  thresholds of the college's policy with their defaults.
\<close>

definition spec_active_definitions :: "store \<Rightarrow> user_id \<Rightarrow> badge_definition list" where
  "spec_active_definitions s uid =
     filter isActive
       (List.map_filter (\<lambda>award. badgeDefinitions s (badgeId award))
          (filter (\<lambda>award. studentId award = uid) (studentBadges s)))"

definition spec_categories :: "store \<Rightarrow> user_id \<Rightarrow> jsstring set" where
  "spec_categories s uid = set (List.map_filter category (spec_active_definitions s uid))"

definition spec_required_badges :: "store \<Rightarrow> college_id \<Rightarrow> int" where
  "spec_required_badges s cid =
     (case badgePolicies s cid of None \<Rightarrow> 8 | Some p \<Rightarrow> eventCreationRequired p)"

definition spec_required_categories :: "store \<Rightarrow> college_id \<Rightarrow> int" where
  "spec_required_categories s cid =
     (case badgePolicies s cid of None \<Rightarrow> 4 | Some p \<Rightarrow> categoryDiversityMin p)"

definition reply_canCreate :: "eligibility_body outcome \<Rightarrow> bool option" where
  \<comment> \<open>the \<^verbatim>\<open>canCreate\<close> of a 200 reply\<close>
  "reply_canCreate r =
     (case r of
        Reply status (Eligibility_cached can _ _ _) \<Rightarrow> if status = 200 then Some can else None
      | Reply status (Eligibility_fresh can _ _ _ _ _) \<Rightarrow> if status = 200 then Some can else None
      | _ \<Rightarrow> None)"

definition spec_can_create :: "store \<Rightarrow> user_id \<Rightarrow> college_id \<Rightarrow> bool" where
  "spec_can_create s uid cid =
     (spec_required_badges s cid \<le> int (length (spec_active_definitions s uid)) \<and>
      spec_required_categories s cid \<le> int (card (spec_categories s uid)))"

text \<open>
  What the eligibility rule relies on: the policy of the college, when there is one, has
  thresholds of at least 1; no category among the user's active awards is the empty
  string; and every award names a badge definition (the foreign key).
\<close>

definition thresholds_valid :: "store \<Rightarrow> college_id \<Rightarrow> bool" where
  "thresholds_valid s cid =
     (case badgePolicies s cid of
        None \<Rightarrow> True
      | Some p \<Rightarrow> 1 \<le> eventCreationRequired p \<and> 1 \<le> categoryDiversityMin p)"

definition categories_visible :: "store \<Rightarrow> user_id \<Rightarrow> bool" where
  "categories_visible s uid =
     list_all (\<lambda>d. category d \<noteq> Some []) (spec_active_definitions s uid)"

definition awards_reference_definitions :: "store \<Rightarrow> bool" where
  "awards_reference_definitions s =
     list_all (\<lambda>award. badgeDefinitions s (badgeId award) \<noteq> None) (studentBadges s)"

text \<open>
  The service's own writes keep these true of the whole store: the policy schema admits
  no threshold below 1, and a badge definition is created with a category only when the
  category holds a visible character.
\<close>

definition policies_valid :: "store \<Rightarrow> bool" where
  "policies_valid s =
     (\<forall>cid p. badgePolicies s cid = Some p \<longrightarrow>
        1 \<le> eventCreationRequired p \<and> 1 \<le> categoryDiversityMin p)"

definition categories_nonempty :: "store \<Rightarrow> bool" where
  "categories_nonempty s = (\<forall>i d. badgeDefinitions s i = Some d \<longrightarrow> category d \<noteq> Some [])"

definition cache_stale :: "store \<Rightarrow> time \<Rightarrow> user_id \<Rightarrow> bool" where
  \<comment> \<open>no cache row for the user, or one that has expired\<close>
  "cache_stale s now uid =
     (case badgeEligibilityCache s uid of None \<Rightarrow> True | Some c \<Rightarrow> \<not> now < expiresAt c)"

definition resolves_college :: "gateway \<Rightarrow> user_id \<Rightarrow> college_id \<Rightarrow> bool" where
  \<comment> \<open>the gateway answers with a user record that carries this college id\<close>
  "resolves_college gw uid cid =
     (cid \<noteq> [] \<and>
      (case get_user gw uid of
         Ok2xx data \<Rightarrow> Option.bind (Option.bind data user) collegeId = Some cid
       | _ \<Rightarrow> False))"

section \<open>Authentication and roles\<close>

text \<open>
  \<^verbatim>\<open>verifyAccessToken\<close> lives in a module that is not part of the sources at hand; it is a
  parameter of the middleware, \<open>None\<close> when the promise it returns is rejected.
\<close>

record jwt_payload =
  payload_sub :: string
  payload_email :: "jsstring option"
  payload_roles :: "string list option"
  payload_name :: "jsstring option"

record auth_user =
  sub :: string
  user_ident :: string
  user_email :: jsstring
  user_roles :: "string list"
  user_displayName :: "jsstring option"

record request =
  authorization :: "string option"
  request_user :: "auth_user option"

text \<open>
  The reply object of a request: nothing sent yet, or the status and message sent. Once a
  reply is sent a later \<^verbatim>\<open>send\<close> does not replace it.
\<close>

type_synonym reply_state = "(nat \<times> string) option"

definition send :: "reply_state \<Rightarrow> nat \<Rightarrow> string \<Rightarrow> reply_state" where
  "send rep status message = (case rep of None \<Rightarrow> Some (status, message) | Some sent \<Rightarrow> Some sent)"

definition token_user :: "jwt_payload \<Rightarrow> auth_user" where
  \<comment> \<open>the \<^verbatim>\<open>request.user\<close> that \<^verbatim>\<open>requireAuth\<close> builds from a verified token\<close>
  "token_user payload =
     \<lparr>sub = payload_sub payload, user_ident = payload_sub payload,
      user_email = or_str (payload_email payload) [],
      user_roles = (case payload_roles payload of None \<Rightarrow> [] | Some rs \<Rightarrow> rs),
      user_displayName = payload_name payload\<rparr>"

definition requireAuth ::
  "(string \<Rightarrow> jwt_payload option) \<Rightarrow> request \<Rightarrow> reply_state \<Rightarrow> request \<times> reply_state" where
  "requireAuth verifyAccessToken req rep =
     (case authorization req of
        None \<Rightarrow> (req, send rep 401 ''Missing authorization token'')
      | Some auth \<Rightarrow>
          if take 7 auth \<noteq> ''Bearer '' then (req, send rep 401 ''Missing authorization token'')
          else
            (case verifyAccessToken (drop 7 auth) of
               None \<Rightarrow> (req, send rep 401 ''Invalid or expired token'')
             | Some payload \<Rightarrow> (req\<lparr>request_user := Some (token_user payload)\<rparr>, rep)))"

definition requireRole ::
  "(string \<Rightarrow> jwt_payload option) \<Rightarrow> string list \<Rightarrow> request \<Rightarrow> reply_state \<Rightarrow>
     request \<times> reply_state \<times> js_error option" where
  \<comment> \<open>reading \<^verbatim>\<open>user.roles\<close> of a request without a user throws \<^verbatim>\<open>TypeError\<close>\<close>
  "requireRole verifyAccessToken required req rep =
     (let (req', rep') = requireAuth verifyAccessToken req rep in
      case request_user req' of
        None \<Rightarrow> (req', rep', Some TypeError)
      | Some u \<Rightarrow>
          let hasRole = list_ex (\<lambda>role. role \<in> set (user_roles u)) required in
          if \<not> hasRole then (req', send rep' 403 ''Insufficient permissions'', None)
          else (req', rep', None))"

text \<open>
  The framework runs the \<^verbatim>\<open>preHandler\<close> hooks of a route in order and runs no further
  hook once a reply has been sent. The status the client sees is the one of the reply
  sent; an exception a hook throws is answered 500 when no reply has been sent, and is
  only logged when one has. \<open>None\<close>: the request goes on to the handler.
\<close>

type_synonym hook = "request \<Rightarrow> reply_state \<Rightarrow> request \<times> reply_state \<times> js_error option"

fun preHandlers :: "hook list \<Rightarrow> request \<Rightarrow> reply_state \<Rightarrow> request \<times> reply_state \<times> js_error option" where
  "preHandlers [] req rep = (req, rep, None)"
| "preHandlers (h # hs) req rep =
     (if rep \<noteq> None then (req, rep, None)
      else
        (case h req rep of
           (req', rep', Some e) \<Rightarrow> (req', rep', Some e)
         | (req', rep', None) \<Rightarrow> preHandlers hs req' rep'))"

definition auth_hook :: "(string \<Rightarrow> jwt_payload option) \<Rightarrow> hook" where
  "auth_hook verifyAccessToken req rep =
     (let (req', rep') = requireAuth verifyAccessToken req rep in (req', rep', None))"

definition response_status :: "request \<times> reply_state \<times> js_error option \<Rightarrow> nat option" where
  "response_status r =
     (case r of
        (_, Some (status, _), _) \<Rightarrow> Some status
      | (_, None, Some _) \<Rightarrow> Some 500
      | (_, None, None) \<Rightarrow> None)"

definition credential_accepted :: "(string \<Rightarrow> jwt_payload option) \<Rightarrow> request \<Rightarrow> bool" where
  \<comment> \<open>a bearer token is present and verifies\<close>
  "credential_accepted verifyAccessToken req =
     (case authorization req of
        None \<Rightarrow> False
      | Some auth \<Rightarrow> take 7 auth = ''Bearer '' \<and> verifyAccessToken (drop 7 auth) \<noteq> None)"

definition authenticated :: "(string \<Rightarrow> jwt_payload option) \<Rightarrow> request \<Rightarrow> auth_user option" where
  \<comment> \<open>the caller a bearer token that verifies stands for\<close>
  "authenticated verifyAccessToken req =
     (case authorization req of
        None \<Rightarrow> None
      | Some auth \<Rightarrow>
          if take 7 auth = ''Bearer '' then map_option token_user (verifyAccessToken (drop 7 auth))
          else None)"

definition has_role :: "string list \<Rightarrow> auth_user \<Rightarrow> bool" where
  "has_role required caller = list_ex (\<lambda>role. role \<in> set (user_roles caller)) required"

section \<open>Request validation\<close>

text \<open>
  A route is registered with a schema for its path parameters and its body. The framework
  checks a request against the schema before it runs the \<^verbatim>\<open>preHandler\<close> hooks, and answers
  400 when the check fails. A field of a JSON body is absent, a string, a number, or some
  other value (\<^verbatim>\<open>null\<close>, a boolean, an array, an object); numbers are integers here.
\<close>

datatype jvalue = Absent | Text jsstring | Number int | Other

text \<open>
  What the schema library decides by itself is a parameter: which strings are cuids and
  which are URLs. Row ids are numbers and user and college ids are \<open>string\<close>s in this
  development, so the id a cuid stands for is a parameter too, as is the year in which the
  server started, the bound of a publication's year.
\<close>

record zod =
  cuid :: "jsstring \<Rightarrow> bool"
  url :: "jsstring \<Rightarrow> bool"
  row_of :: "jsstring \<Rightarrow> row_id"
  ident_of :: "jsstring \<Rightarrow> string"
  year_now :: int

definition required_text :: "jvalue \<Rightarrow> jsstring option" where
  \<comment> \<open>\<^verbatim>\<open>z.string().min(1)\<close>\<close>
  "required_text v = (case v of Text t \<Rightarrow> if 1 \<le> length t then Some t else None | _ \<Rightarrow> None)"

definition optional_text :: "jvalue \<Rightarrow> jsstring option option" where
  \<comment> \<open>\<^verbatim>\<open>z.string().optional()\<close>\<close>
  "optional_text v = (case v of Absent \<Rightarrow> Some None | Text t \<Rightarrow> Some (Some t) | _ \<Rightarrow> None)"

definition optional_url :: "zod \<Rightarrow> jvalue \<Rightarrow> jsstring option option" where
  \<comment> \<open>\<^verbatim>\<open>z.string().url().optional().or(z.literal(""))\<close>\<close>
  "optional_url z v =
     (case v of
        Absent \<Rightarrow> Some None
      | Text t \<Rightarrow> if t = [] \<or> url z t then Some (Some t) else None
      | _ \<Rightarrow> None)"

definition row_param :: "zod \<Rightarrow> jsstring \<Rightarrow> row_id option" where
  \<comment> \<open>a path parameter under \<^verbatim>\<open>z.string().cuid()\<close>\<close>
  "row_param z p = (if cuid z p then Some (row_of z p) else None)"

definition required_row :: "zod \<Rightarrow> jvalue \<Rightarrow> row_id option" where
  "required_row z v = (case v of Text t \<Rightarrow> row_param z t | _ \<Rightarrow> None)"

definition optional_row :: "zod \<Rightarrow> jvalue \<Rightarrow> row_id option option" where
  \<comment> \<open>\<^verbatim>\<open>z.string().cuid().optional()\<close>\<close>
  "optional_row z v =
     (case v of
        Absent \<Rightarrow> Some None
      | Text t \<Rightarrow> if cuid z t then Some (Some (row_of z t)) else None
      | _ \<Rightarrow> None)"

definition required_ident :: "zod \<Rightarrow> jvalue \<Rightarrow> string option" where
  \<comment> \<open>a user or college id under \<^verbatim>\<open>z.string().cuid()\<close>\<close>
  "required_ident z v =
     (case v of Text t \<Rightarrow> if cuid z t then Some (ident_of z t) else None | _ \<Rightarrow> None)"

text \<open>
  A request on its way to the handler: refused with a status and a message by the schema
  check or by a hook, failed with an exception no reply preceded, or passed on with the
  input the schema check produced and the user the hooks set. The handlers read
  \<^verbatim>\<open>req.user!.sub\<close>, which throws on a request without a user.
\<close>

datatype 'a staged = Rejected nat string | Crashed js_error | Passed 'a

definition before_handler :: "'i option \<Rightarrow> hook list \<Rightarrow> request \<Rightarrow> ('i \<times> auth_user) staged" where
  \<comment> \<open>the first argument is the outcome of the schema check on the request\<close>
  "before_handler parsed hooks req =
     (case parsed of
        None \<Rightarrow> Rejected 400 ''Bad Request''
      | Some input \<Rightarrow>
          (case preHandlers hooks req None of
             (req', Some (status, message), e) \<Rightarrow> Rejected status message
           | (req', None, Some e) \<Rightarrow> Crashed e
           | (req', None, None) \<Rightarrow>
               (case request_user req' of
                  None \<Rightarrow> Crashed TypeError
                | Some caller \<Rightarrow> Passed (input, caller))))"

definition staged_status :: "'a staged \<Rightarrow> nat option" where
  \<comment> \<open>the status the client has received before the handler runs, if any\<close>
  "staged_status r =
     (case r of Rejected status message \<Rightarrow> Some status | Crashed e \<Rightarrow> Some 500 | Passed x \<Rightarrow> None)"

section \<open>Badge definitions, policies and awards\<close>

record badge_definition_body =
  body_name :: jsstring
  body_description :: jsstring
  body_icon :: "jsstring option"
  body_color :: "jsstring option"
  body_category :: "jsstring option"
  body_criteria :: "jsstring option"
  body_rarity :: rarity

definition if_visible :: "jsstring option \<Rightarrow> jsstring option" where
  \<comment> \<open>\<^verbatim>\<open>if (v && v.trim()) createData.field = v\<close>\<close>
  "if_visible v = (case v of None \<Rightarrow> None | Some x \<Rightarrow> if x \<noteq> [] \<and> trim x \<noteq> [] then Some x else None)"

definition post_badge_definition ::
  "bool \<Rightarrow> store \<Rightarrow> auth_user \<Rightarrow> badge_definition_body \<Rightarrow> (row_id \<times> badge_definition) outcome \<times> store" where
  \<comment> \<open>\<^verbatim>\<open>POST /v1/badge-definitions\<close>; the first argument is the default of the column
      \<^verbatim>\<open>isActive\<close>, which the handler does not set\<close>
  "post_badge_definition active_default s caller data =
     (let badgeDefinition =
            \<lparr>badge_name = body_name data, badge_description = body_description data,
             icon = if_visible (body_icon data), color = if_visible (body_color data),
             category = if_visible (body_category data),
             criteria = if_visible (body_criteria data), badge_rarity = body_rarity data,
             createdBy = sub caller, isActive = active_default\<rparr>
      in (Reply 201 (next_id s, badgeDefinition),
          s\<lparr>badgeDefinitions := (badgeDefinitions s)(next_id s \<mapsto> badgeDefinition),
            next_id := Suc (next_id s)\<rparr>))"

record policy_body =
  body_collegeId :: college_id
  body_departmentId :: "jsstring option"
  body_eventCreationRequired :: "int option"
  body_categoryDiversityMin :: "int option"

datatype policy_reply = Policy_created badge_policy | Validation_failed

definition post_policy :: "store \<Rightarrow> policy_body \<Rightarrow> policy_reply outcome \<times> store" where
  \<comment> \<open>\<^verbatim>\<open>POST /v1/badges/policies\<close> with its body schema: both thresholds are integers of
      at least 1, 8 and 4 when absent; the college id is unique\<close>
  "post_policy s body =
     (let required = (case body_eventCreationRequired body of None \<Rightarrow> 8 | Some n \<Rightarrow> n);
          diversity = (case body_categoryDiversityMin body of None \<Rightarrow> 4 | Some n \<Rightarrow> n)
      in
      if \<not> (1 \<le> required \<and> 1 \<le> diversity) then (Reply 400 Validation_failed, s)
      else
        (case badgePolicies s (body_collegeId body) of
           Some existing \<Rightarrow> (Threw StoreError, s)
         | None \<Rightarrow>
             let policy = \<lparr>policy_collegeId = body_collegeId body,
                            departmentId = body_departmentId body,
                            eventCreationRequired = required,
                            categoryDiversityMin = diversity\<rparr>
             in (Reply 201 (Policy_created policy),
                 s\<lparr>badgePolicies := (badgePolicies s)(body_collegeId body \<mapsto> policy)\<rparr>)))"

record award_body =
  badgeDefinitionId :: row_id
  body_userId :: user_id
  body_reason :: jsstring
  body_projectId :: "row_id option"
  body_eventId :: "row_id option"
  body_awardedByName :: "jsstring option"

text \<open>The announcement sent to the network service for an award.\<close>

record badge_data =
  data_badgeId :: row_id
  data_badgeName :: jsstring
  data_description :: jsstring
  data_criteria :: jsstring
  data_rarity :: jsstring
  data_awardedTo :: jsstring
  data_awardedToId :: user_id
  data_awardedAt :: time
  data_awardedByName :: "jsstring option"

record post_data =
  post_type :: string
  content :: jsstring
  visibility :: string
  badgeData :: badge_data
  tags :: "jsstring list"

definition rarity_name :: "rarity \<Rightarrow> string" where
  "rarity_name r =
     (case r of COMMON \<Rightarrow> ''COMMON'' | UNCOMMON \<Rightarrow> ''UNCOMMON'' | RARE \<Rightarrow> ''RARE''
      | EPIC \<Rightarrow> ''EPIC'' | LEGENDARY \<Rightarrow> ''LEGENDARY'')"

definition award_post_data ::
  "(jsstring \<Rightarrow> jsstring) \<Rightarrow> student_badge \<Rightarrow> badge_definition \<Rightarrow> auth_user \<Rightarrow> user_info option \<Rightarrow> post_data" where
  \<comment> \<open>\<^verbatim>\<open>postData\<close> of \<^verbatim>\<open>createBadgeAwardPost\<close>; the content opens with the two code units of
      the party popper, and 34 and 10 are the double quote and the line feed\<close>
  "award_post_data toLowerCase badge bdef awarder studentInfo =
     (let student = or_str (or_opt (Option.bind studentInfo displayName)
                      (Option.bind studentInfo user_name)) (utf16 ''Student'')
      in
      \<lparr>post_type = ''BADGE_AWARD'',
       content = [55356, 57225] @ utf16 '' Congratulations to '' @ student @
         utf16 '' for earning the '' @ [34] @ badge_name bdef @ [34] @
         utf16 '' badge!'' @ [10, 10] @ reason badge,
       visibility = ''COLLEGE'',
       badgeData =
         \<lparr>data_badgeId = badgeId badge, data_badgeName = badge_name bdef,
          data_description = badge_description bdef,
          data_criteria = or_str (criteria bdef) (reason badge),
          data_rarity = or_str (Some (toLowerCase (utf16 (rarity_name (badge_rarity bdef)))))
            (utf16 ''common''),
          data_awardedTo = student, data_awardedToId = studentId badge,
          data_awardedAt = awardedAt badge,
          data_awardedByName = or_opt (awardedByName badge) (user_displayName awarder)\<rparr>,
       tags = filter (\<lambda>tag. tag \<noteq> [])
         ([utf16 ''badge'', utf16 ''achievement''] @
          (case category bdef of None \<Rightarrow> [] | Some c \<Rightarrow> [toLowerCase c]))\<rparr>)"

text \<open>
  The network service answers a post with a response that is ok and carries a body that
  may or may not parse, with a response that is not ok, or not at all.
\<close>

datatype post_result = Post_skipped | Post_created nat | Post_failed

definition createBadgeAwardPost ::
  "(jsstring \<Rightarrow> jsstring) \<Rightarrow> string option \<Rightarrow> (post_data \<Rightarrow> nat option http) \<Rightarrow>
     student_badge \<Rightarrow> badge_definition \<Rightarrow> auth_user \<Rightarrow> user_info option \<Rightarrow>
     post_result \<times> post_data list" where
  \<comment> \<open>the second argument is the environment variable \<^verbatim>\<open>BADGE_AUTO_POST_ENABLED\<close>; the
      result is what the function returns (\<open>Post_failed\<close>: it throws) and the posts it sent\<close>
  "createBadgeAwardPost toLowerCase auto_post network badge bdef awarder studentInfo =
     (if auto_post = Some ''false'' then (Post_skipped, [])
      else
        let postData = award_post_data toLowerCase badge bdef awarder studentInfo in
        (case network postData of
           Ok2xx (Some result_id) \<Rightarrow> (Post_created result_id, [postData])
         | Ok2xx None \<Rightarrow> (Post_failed, [postData])
         | HttpError status \<Rightarrow> (Post_failed, [postData])
         | NoResponse \<Rightarrow> (Post_failed, [postData])))"

datatype award_reply =
    Award_created student_badge badge_definition
  | User_not_found user_id
  | Verify_failed

definition post_badge_award ::
  "(jsstring \<Rightarrow> jsstring) \<Rightarrow> gateway \<Rightarrow> string option \<Rightarrow> (post_data \<Rightarrow> nat option http) \<Rightarrow>
     store \<Rightarrow> time \<Rightarrow> auth_user \<Rightarrow> award_body \<Rightarrow> award_reply outcome \<times> store \<times> post_data list" where
  \<comment> \<open>\<^verbatim>\<open>POST /v1/badges/award\<close>; the award names a badge definition by a foreign
      key, so creating it fails when there is no such definition\<close>
  "post_badge_award toLowerCase gw auto_post network s now caller data =
     (let award = (\<lambda>studentInfo.
            let (s1, p) = profile_upsert s now (body_userId data) (\<lambda>p. p) (\<lambda>p. p) in
            (case badgeDefinitions s1 (badgeDefinitionId data) of
               None \<Rightarrow> (Threw StoreError, s1, [])
             | Some bdef \<Rightarrow>
                 let badge = \<lparr>award_id = next_id s1, studentId = body_userId data,
                               badgeId = badgeDefinitionId data, awardedBy = sub caller,
                               awardedByName = body_awardedByName data,
                               reason = body_reason data, projectId = body_projectId data,
                               eventId = body_eventId data, awardedAt = now\<rparr>;
                     s2 = s1\<lparr>studentBadges := studentBadges s1 @ [badge],
                             next_id := Suc (next_id s1)\<rparr>;
                     (posted, sent) = createBadgeAwardPost toLowerCase auto_post network badge
                                        bdef caller studentInfo
                 in (Reply 201 (Award_created badge bdef), s2, sent)))
      in
      (case get_user gw (body_userId data) of
         Ok2xx None \<Rightarrow> (Reply 404 (User_not_found (body_userId data)), s, [])
       | Ok2xx (Some response) \<Rightarrow> award (user response)
       | HttpError status \<Rightarrow>
           if status = 404 then (Reply 404 (User_not_found (body_userId data)), s, [])
           else (Reply 500 Verify_failed, s, [])
       | NoResponse \<Rightarrow> (Reply 500 Verify_failed, s, [])))"

subsection \<open>The routes of awards and policies\<close>

record award_json =
  json_badgeDefinitionId :: jvalue
  json_userId :: jvalue
  json_reason :: jvalue
  json_projectId :: jvalue
  json_eventId :: jvalue
  json_awardedByName :: jvalue

definition awardBadgeSchema :: "zod \<Rightarrow> award_json \<Rightarrow> award_body option" where
  "awardBadgeSchema z b =
     (case (required_row z (json_badgeDefinitionId b), required_ident z (json_userId b),
            required_text (json_reason b), optional_row z (json_projectId b),
            optional_row z (json_eventId b), optional_text (json_awardedByName b)) of
        (Some definition_id, Some uid, Some why, Some project, Some event, Some by_name) \<Rightarrow>
          Some \<lparr>badgeDefinitionId = definition_id, body_userId = uid, body_reason = why,
                body_projectId = project, body_eventId = event, body_awardedByName = by_name\<rparr>
      | _ \<Rightarrow> None)"

record policy_json =
  json_collegeId :: jvalue
  json_departmentId :: jvalue
  json_eventCreationRequired :: jvalue
  json_categoryDiversityMin :: jvalue

definition optional_threshold :: "jvalue \<Rightarrow> int option option" where
  \<comment> \<open>\<^verbatim>\<open>z.number().int().min(1).default(n)\<close>; the default is applied by \<open>post_policy\<close>\<close>
  "optional_threshold v =
     (case v of
        Absent \<Rightarrow> Some None
      | Number n \<Rightarrow> if 1 \<le> n then Some (Some n) else None
      | _ \<Rightarrow> None)"

definition policySchema :: "zod \<Rightarrow> policy_json \<Rightarrow> policy_body option" where
  "policySchema z b =
     (case (required_ident z (json_collegeId b), optional_text (json_departmentId b),
            optional_threshold (json_eventCreationRequired b),
            optional_threshold (json_categoryDiversityMin b)) of
        (Some college, Some dept, Some required, Some diversity) \<Rightarrow>
          Some \<lparr>body_collegeId = college, body_departmentId = dept,
                body_eventCreationRequired = required, body_categoryDiversityMin = diversity\<rparr>
      | _ \<Rightarrow> None)"

definition award_roles :: "string list" where
  "award_roles = [''FACULTY'', ''DEPT_ADMIN'', ''HEAD_ADMIN'']"

definition policy_roles :: "string list" where
  "policy_roles = [''HEAD_ADMIN'']"

definition route_post_badge_award ::
  "zod \<Rightarrow> (string \<Rightarrow> jwt_payload option) \<Rightarrow> (jsstring \<Rightarrow> jsstring) \<Rightarrow> gateway \<Rightarrow> string option \<Rightarrow>
     (post_data \<Rightarrow> nat option http) \<Rightarrow> request \<Rightarrow> store \<Rightarrow> time \<Rightarrow> award_json \<Rightarrow>
     (award_reply outcome \<times> store \<times> post_data list) staged" where
  \<comment> \<open>\<^verbatim>\<open>POST /v1/badges/award\<close> as registered: schema, hooks, handler\<close>
  "route_post_badge_award z verify toLowerCase gw auto_post network req s now body =
     map_staged (\<lambda>(data, caller). post_badge_award toLowerCase gw auto_post network s now caller data)
       (before_handler (awardBadgeSchema z body)
          [auth_hook verify, requireRole verify award_roles] req)"

definition route_post_policy ::
  "zod \<Rightarrow> (string \<Rightarrow> jwt_payload option) \<Rightarrow> request \<Rightarrow> store \<Rightarrow> policy_json \<Rightarrow>
     (policy_reply outcome \<times> store) staged" where
  \<comment> \<open>\<^verbatim>\<open>POST /v1/badges/policies\<close> as registered: schema, hooks, handler\<close>
  "route_post_policy z verify req s body =
     map_staged (\<lambda>(data, caller). post_policy s data)
       (before_handler (policySchema z body)
          [auth_hook verify, requireRole verify policy_roles] req)"

section \<open>Projects, publications and experiences\<close>

text \<open>
  A row belongs to a profile through the foreign key \<^verbatim>\<open>userId\<close>: the \<^verbatim>\<open>userId\<close> of the
  owning profile is the one of the row.
\<close>

datatype 'a entity_body = Entity 'a | Entity_message string | No_content

definition guarded ::
  "'i option \<Rightarrow> hook list \<Rightarrow> request \<Rightarrow> store \<Rightarrow>
     ('i \<Rightarrow> auth_user \<Rightarrow> 'a entity_body outcome \<times> store) \<Rightarrow> 'a entity_body outcome \<times> store" where
  \<comment> \<open>a route: the schema check, the \<^verbatim>\<open>preHandler\<close> hooks, then the handler; a request
      refused on the way leaves the store as it is\<close>
  "guarded parsed hooks req s handler =
     (case before_handler parsed hooks req of
        Rejected status message \<Rightarrow> (Reply status (Entity_message message), s)
      | Crashed e \<Rightarrow> (Threw e, s)
      | Passed (input, caller) \<Rightarrow> handler input caller)"

record project_json =
  json_title :: jvalue
  json_description :: jvalue
  json_github :: jvalue
  json_demoLink :: jvalue
  json_image :: jvalue

definition personalProjectSchema :: "zod \<Rightarrow> project_json \<Rightarrow> project_data option" where
  "personalProjectSchema z b =
     (case (required_text (json_title b), required_text (json_description b),
            optional_url z (json_github b), optional_url z (json_demoLink b),
            optional_url z (json_image b)) of
        (Some t, Some d, Some g, Some l, Some i) \<Rightarrow>
          Some \<lparr>title = t, description = d, project_github = g, demoLink = l, project_image = i\<rparr>
      | _ \<Rightarrow> None)"

record publication_json =
  json_publication_title :: jvalue
  json_year :: jvalue
  json_link :: jvalue

definition bounded_year :: "zod \<Rightarrow> jvalue \<Rightarrow> nat option" where
  \<comment> \<open>\<^verbatim>\<open>z.number().min(1900).max(new Date().getFullYear())\<close>\<close>
  "bounded_year z v =
     (case v of
        Number n \<Rightarrow> if 1900 \<le> n \<and> n \<le> year_now z then Some (nat n) else None
      | _ \<Rightarrow> None)"

definition publicationSchema :: "zod \<Rightarrow> publication_json \<Rightarrow> publication_data option" where
  "publicationSchema z b =
     (case (required_text (json_publication_title b), bounded_year z (json_year b),
            optional_url z (json_link b)) of
        (Some t, Some y, Some l) \<Rightarrow>
          Some \<lparr>publication_title = t, publication_year = y, link = l\<rparr>
      | _ \<Rightarrow> None)"

record experience_json =
  json_area :: jvalue
  json_level :: jvalue
  json_yearsExp :: jvalue
  json_experience_description :: jvalue

definition level_of :: "jvalue \<Rightarrow> level option" where
  \<comment> \<open>\<^verbatim>\<open>z.enum(["Beginner", "Intermediate", "Advanced", "Expert"])\<close>\<close>
  "level_of v =
     (case v of
        Text t \<Rightarrow>
          if t = utf16 ''Beginner'' then Some Beginner
          else if t = utf16 ''Intermediate'' then Some Intermediate
          else if t = utf16 ''Advanced'' then Some Advanced
          else if t = utf16 ''Expert'' then Some Expert
          else None
      | _ \<Rightarrow> None)"

definition optional_years :: "jvalue \<Rightarrow> nat option option" where
  \<comment> \<open>\<^verbatim>\<open>z.number().min(0).max(50).optional()\<close>\<close>
  "optional_years v =
     (case v of
        Absent \<Rightarrow> Some None
      | Number n \<Rightarrow> if 0 \<le> n \<and> n \<le> 50 then Some (Some (nat n)) else None
      | _ \<Rightarrow> None)"

definition experienceSchema :: "experience_json \<Rightarrow> experience_data option" where
  "experienceSchema b =
     (case (required_text (json_area b), level_of (json_level b),
            optional_years (json_yearsExp b), optional_text (json_experience_description b)) of
        (Some a, Some l, Some y, Some d) \<Rightarrow>
          Some \<lparr>area = a, experience_level = l, yearsExp = y, experience_description = d\<rparr>
      | _ \<Rightarrow> None)"

definition with_param :: "zod \<Rightarrow> jsstring \<Rightarrow> 'b option \<Rightarrow> (row_id \<times> 'b) option" where
  \<comment> \<open>the schema check of a route with a cuid path parameter and a body\<close>
  "with_param z param body =
     (case row_param z param of None \<Rightarrow> None | Some i \<Rightarrow> map_option (Pair i) body)"

definition put_project ::
  "store \<Rightarrow> row_id \<Rightarrow> project_data \<Rightarrow> auth_user \<Rightarrow> personal_project entity_body outcome \<times> store" where
  \<comment> \<open>\<^verbatim>\<open>PUT /v1/profiles/me/projects/:projectId\<close>\<close>
  "put_project s projId data caller =
     (case find (\<lambda>p. project_id p = projId \<and> project_userId p = sub caller)
             (personalProjects s) of
        None \<Rightarrow> (Reply 404 (Entity_message ''Project not found''), s)
      | Some existingProject \<Rightarrow>
          (Reply 200 (Entity (existingProject\<lparr>project_fields := data\<rparr>)),
           s\<lparr>personalProjects :=
               map (\<lambda>p. if project_id p = projId then p\<lparr>project_fields := data\<rparr> else p)
                 (personalProjects s)\<rparr>))"

definition delete_project ::
  "store \<Rightarrow> row_id \<Rightarrow> auth_user \<Rightarrow> personal_project entity_body outcome \<times> store" where
  \<comment> \<open>\<^verbatim>\<open>DELETE /v1/profiles/me/projects/:projectId\<close>\<close>
  "delete_project s projId caller =
     (case find (\<lambda>p. project_id p = projId \<and> project_userId p = sub caller)
             (personalProjects s) of
        None \<Rightarrow> (Reply 404 (Entity_message ''Project not found''), s)
      | Some existingProject \<Rightarrow>
          (Reply 204 No_content,
           s\<lparr>personalProjects := filter (\<lambda>p. project_id p \<noteq> projId) (personalProjects s)\<rparr>))"

definition put_publication ::
  "store \<Rightarrow> row_id \<Rightarrow> publication_data \<Rightarrow> auth_user \<Rightarrow> publication entity_body outcome \<times> store" where
  \<comment> \<open>the handler of \<^verbatim>\<open>PUT /v1/profiles/me/publications/:publicationId\<close>\<close>
  "put_publication s publicationId data caller =
     (case find (\<lambda>p. publication_id p = publicationId \<and> publication_userId p = sub caller)
             (publications s) of
        None \<Rightarrow> (Reply 404 (Entity_message ''Publication not found''), s)
      | Some existingPublication \<Rightarrow>
          (Reply 200 (Entity (existingPublication\<lparr>publication_fields := data\<rparr>)),
           s\<lparr>publications :=
               map (\<lambda>p. if publication_id p = publicationId then p\<lparr>publication_fields := data\<rparr>
                         else p)
                 (publications s)\<rparr>))"

definition delete_publication ::
  "store \<Rightarrow> row_id \<Rightarrow> auth_user \<Rightarrow> publication entity_body outcome \<times> store" where
  \<comment> \<open>the handler of \<^verbatim>\<open>DELETE /v1/profiles/me/publications/:publicationId\<close>\<close>
  "delete_publication s publicationId caller =
     (case find (\<lambda>p. publication_id p = publicationId \<and> publication_userId p = sub caller)
             (publications s) of
        None \<Rightarrow> (Reply 404 (Entity_message ''Publication not found''), s)
      | Some existingPublication \<Rightarrow>
          (Reply 204 (Entity_message ''Publication deleted successfully''),
           s\<lparr>publications := filter (\<lambda>p. publication_id p \<noteq> publicationId) (publications s)\<rparr>))"

definition put_experience ::
  "store \<Rightarrow> row_id \<Rightarrow> experience_data \<Rightarrow> auth_user \<Rightarrow> experience entity_body outcome \<times> store" where
  \<comment> \<open>\<^verbatim>\<open>PUT /v1/profile/experiences/:id\<close>\<close>
  "put_experience s ident data caller =
     (case find (\<lambda>e. experience_id e = ident \<and> experience_userId e = sub caller)
             (experiences s) of
        None \<Rightarrow> (Reply 404 (Entity_message ''Experience not found or access denied''), s)
      | Some existingExperience \<Rightarrow>
          (Reply 200 (Entity (existingExperience\<lparr>experience_fields := data\<rparr>)),
           s\<lparr>experiences :=
               map (\<lambda>e. if experience_id e = ident then e\<lparr>experience_fields := data\<rparr> else e)
                 (experiences s)\<rparr>))"

definition delete_experience ::
  "store \<Rightarrow> row_id \<Rightarrow> auth_user \<Rightarrow> experience entity_body outcome \<times> store" where
  \<comment> \<open>\<^verbatim>\<open>DELETE /v1/profile/experiences/:id\<close>: the row is found by its id alone, then its
      owner is compared\<close>
  "delete_experience s ident caller =
     (case find (\<lambda>e. experience_id e = ident) (experiences s) of
        None \<Rightarrow> (Reply 404 (Entity_message ''Experience not found''), s)
      | Some found \<Rightarrow>
          if experience_userId found \<noteq> sub caller
          then (Reply 404 (Entity_message ''Experience not found''), s)
          else
            (Reply 200 (Entity_message ''Experience deleted successfully''),
             s\<lparr>experiences := filter (\<lambda>e. experience_id e \<noteq> ident) (experiences s)\<rparr>))"

text \<open>The routes as they are registered: the schema, the hooks, then the handler.\<close>

definition publication_roles :: "string list" where
  "publication_roles = [''FACULTY'', ''HEAD_ADMIN'']"

definition route_put_project ::
  "zod \<Rightarrow> (string \<Rightarrow> jwt_payload option) \<Rightarrow> request \<Rightarrow> store \<Rightarrow> jsstring \<Rightarrow> project_json \<Rightarrow>
     personal_project entity_body outcome \<times> store" where
  "route_put_project z verify req s param body =
     guarded (with_param z param (personalProjectSchema z body)) [auth_hook verify] req s
       (\<lambda>(projId, data). put_project s projId data)"

definition route_delete_project ::
  "zod \<Rightarrow> (string \<Rightarrow> jwt_payload option) \<Rightarrow> request \<Rightarrow> store \<Rightarrow> jsstring \<Rightarrow>
     personal_project entity_body outcome \<times> store" where
  "route_delete_project z verify req s param =
     guarded (row_param z param) [auth_hook verify] req s (delete_project s)"

definition route_put_publication ::
  "zod \<Rightarrow> (string \<Rightarrow> jwt_payload option) \<Rightarrow> request \<Rightarrow> store \<Rightarrow> jsstring \<Rightarrow> publication_json \<Rightarrow>
     publication entity_body outcome \<times> store" where
  "route_put_publication z verify req s param body =
     guarded (with_param z param (publicationSchema z body))
       [auth_hook verify, requireRole verify publication_roles] req s
       (\<lambda>(publicationId, data). put_publication s publicationId data)"

definition route_delete_publication ::
  "zod \<Rightarrow> (string \<Rightarrow> jwt_payload option) \<Rightarrow> request \<Rightarrow> store \<Rightarrow> jsstring \<Rightarrow>
     publication entity_body outcome \<times> store" where
  "route_delete_publication z verify req s param =
     guarded (row_param z param) [auth_hook verify, requireRole verify publication_roles] req s
       (delete_publication s)"

definition route_put_experience ::
  "zod \<Rightarrow> (string \<Rightarrow> jwt_payload option) \<Rightarrow> request \<Rightarrow> store \<Rightarrow> jsstring \<Rightarrow> experience_json \<Rightarrow>
     experience entity_body outcome \<times> store" where
  "route_put_experience z verify req s param body =
     guarded (with_param z param (experienceSchema body)) [auth_hook verify] req s
       (\<lambda>(ident, data). put_experience s ident data)"

definition route_delete_experience ::
  "zod \<Rightarrow> (string \<Rightarrow> jwt_payload option) \<Rightarrow> request \<Rightarrow> store \<Rightarrow> jsstring \<Rightarrow>
     experience entity_body outcome \<times> store" where
  \<comment> \<open>the route names \<^verbatim>\<open>errorResponseSchema\<close> for its 404 replies; that module is not part of
      the sources at hand and is taken to admit the handler's message\<close>
  "route_delete_experience z verify req s param =
     guarded (row_param z param) [auth_hook verify] req s (delete_experience s)"

text \<open>A row with this id that the user owns.\<close>

definition owns_project :: "store \<Rightarrow> user_id \<Rightarrow> row_id \<Rightarrow> bool" where
  "owns_project s uid i =
     list_ex (\<lambda>p. project_id p = i \<and> project_userId p = uid) (personalProjects s)"

definition owns_publication :: "store \<Rightarrow> user_id \<Rightarrow> row_id \<Rightarrow> bool" where
  "owns_publication s uid i =
     list_ex (\<lambda>p. publication_id p = i \<and> publication_userId p = uid) (publications s)"

definition owns_experience :: "store \<Rightarrow> user_id \<Rightarrow> row_id \<Rightarrow> bool" where
  "owns_experience s uid i =
     list_ex (\<lambda>e. experience_id e = i \<and> experience_userId e = uid) (experiences s)"

section \<open>Profile enrichment\<close>

record enhanced_profile =
  view_id :: "row_id option"
  view_userId :: user_id
  view_name :: jsstring
  view_displayName :: jsstring
  view_email :: jsstring
  view_avatarUrl :: jsstring
  view_bio :: jsstring
  view_skills :: "jsstring list"
  view_linkedIn :: jsstring
  view_github :: jsstring
  view_twitter :: jsstring
  view_resumeUrl :: jsstring
  view_contactInfo :: jsstring
  view_phoneNumber :: jsstring
  view_alternateEmail :: jsstring
  view_collegeName :: "jsstring option"
  view_collegeId :: college_id
  view_collegeMemberId :: jsstring
  view_department :: jsstring
  view_year :: "nat option"
  view_roles :: "string list"
  view_joinedAt :: "time option"
  view_experiences :: "experience list"
  view_badges :: "(student_badge \<times> badge_definition) list"
  view_projects :: "personal_project list"
  view_publications :: "publication list"

text \<open>
  A profile read with its relations included: the awards of the user, each with its badge
  definition. The outer \<open>None\<close> is the error of an award without its definition; the
  inner one is \<^verbatim>\<open>null\<close>, no profile.
\<close>

definition find_profile ::
  "store \<Rightarrow> user_id \<Rightarrow> (profile \<times> (student_badge \<times> badge_definition) list) option option" where
  "find_profile s uid =
     (case profiles s uid of
        None \<Rightarrow> Some None
      | Some p \<Rightarrow> map_option (\<lambda>badges. Some (p, badges)) (find_user_badges s uid))"

definition or_year :: "nat option \<Rightarrow> nat option \<Rightarrow> nat option" where
  \<comment> \<open>\<^verbatim>\<open>a || b || null\<close> on numbers\<close>
  "or_year a b =
     (case a of
        Some n \<Rightarrow> if n \<noteq> 0 then Some n else (case b of Some m \<Rightarrow> if m \<noteq> 0 then Some m else None | None \<Rightarrow> None)
      | None \<Rightarrow> (case b of Some m \<Rightarrow> if m \<noteq> 0 then Some m else None | None \<Rightarrow> None))"

definition fetch_identity :: "gateway \<Rightarrow> user_id \<Rightarrow> user_info option \<times> jsstring option" where
  \<comment> \<open>the \<^verbatim>\<open>try\<close> block of the read: \<^verbatim>\<open>userInfo\<close> and \<^verbatim>\<open>collegeName\<close>, both \<^verbatim>\<open>null\<close> when
      the user lookup fails, the second also when the college lookup fails\<close>
  "fetch_identity gw uid =
     (case get_user gw uid of
        Ok2xx None \<Rightarrow> (None, None)
      | Ok2xx (Some response) \<Rightarrow>
          (let userInfo = user response in
           if truthy_id (Option.bind userInfo collegeId) then
             (case get_college gw (the (Option.bind userInfo collegeId)) of
                Ok2xx college \<Rightarrow>
                  (userInfo,
                   if truthy (Option.bind college college_name) then Option.bind college college_name
                   else None)
              | HttpError status \<Rightarrow> (userInfo, None)
              | NoResponse \<Rightarrow> (userInfo, None))
           else (userInfo, None))
      | HttpError status \<Rightarrow> (None, None)
      | NoResponse \<Rightarrow> (None, None))"

definition compose_profile ::
  "store \<Rightarrow> user_id \<Rightarrow> (profile \<times> (student_badge \<times> badge_definition) list) option \<Rightarrow>
     user_info option \<Rightarrow> jsstring option \<Rightarrow> enhanced_profile" where
  \<comment> \<open>\<^verbatim>\<open>enhancedProfile\<close>\<close>
  "compose_profile s uid found userInfo collegeName =
     (let p = map_option fst found in
      \<lparr>view_id = map_option profile_id p,
       view_userId = uid,
       view_name = or_str (or_opt (Option.bind p name) (Option.bind userInfo displayName)) [],
       view_displayName = or_str (Option.bind userInfo displayName) [],
       view_email = or_str (Option.bind userInfo email) [],
       view_avatarUrl = or_str (Option.bind userInfo avatarUrl) [],
       view_bio = or_str (Option.bind p bio) [],
       view_skills = (case p of None \<Rightarrow> [] | Some q \<Rightarrow> skills q),
       view_linkedIn = or_str (Option.bind p linkedIn) [],
       view_github = or_str (Option.bind p github) [],
       view_twitter = or_str (Option.bind p twitter) [],
       view_resumeUrl = or_str (Option.bind p resumeUrl) [],
       view_contactInfo = or_str (Option.bind p contactInfo) [],
       view_phoneNumber = or_str (Option.bind p phoneNumber) [],
       view_alternateEmail = or_str (Option.bind p alternateEmail) [],
       view_collegeName = collegeName,
       view_collegeId = (case Option.bind userInfo collegeId of None \<Rightarrow> [] | Some c \<Rightarrow> c),
       view_collegeMemberId = or_str (Option.bind userInfo collegeMemberId) [],
       view_department =
         or_str (or_opt (Option.bind p department) (Option.bind userInfo user_department)) [],
       view_year = or_year (Option.bind p year) (Option.bind userInfo user_year),
       view_roles = (case Option.bind userInfo roles of None \<Rightarrow> [] | Some rs \<Rightarrow> rs),
       view_joinedAt =
         (case Option.bind userInfo user_createdAt of
            Some t \<Rightarrow> Some t
          | None \<Rightarrow> map_option createdAt p),
       view_experiences =
         (case p of None \<Rightarrow> [] | Some q \<Rightarrow> filter (\<lambda>e. experience_userId e = uid) (experiences s)),
       view_badges = (case found of None \<Rightarrow> [] | Some (q, badges) \<Rightarrow> badges),
       view_projects =
         (case p of None \<Rightarrow> []
          | Some q \<Rightarrow> filter (\<lambda>x. project_userId x = uid) (personalProjects s)),
       view_publications =
         (case p of None \<Rightarrow> []
          | Some q \<Rightarrow> filter (\<lambda>x. publication_userId x = uid) (publications s))\<rparr>)"

definition enriched_profile ::
  "gateway \<Rightarrow> store \<Rightarrow> time \<Rightarrow> user_id \<Rightarrow> enhanced_profile outcome \<times> store" where
  \<comment> \<open>the body the two enriched reads share\<close>
  "enriched_profile gw s now uid =
     (case find_profile s uid of
        None \<Rightarrow> (Threw StoreError, s)
      | Some initialProfile \<Rightarrow>
          let (userInfo, collegeName) = fetch_identity gw uid in
          if truthy (Option.bind userInfo displayName) \<and>
             (initialProfile = None \<or> \<not> truthy (Option.bind (map_option fst initialProfile) name))
          then
            let (s', p) = profile_upsert s now uid
                            (\<lambda>p. p\<lparr>name := Option.bind userInfo displayName\<rparr>)
                            (\<lambda>p. p\<lparr>name := Option.bind userInfo displayName\<rparr>)
            in
            (case find_user_badges s' uid of
               None \<Rightarrow> (Threw StoreError, s')
             | Some badges \<Rightarrow>
                 (Reply 200 (compose_profile s' uid (Some (p, badges)) userInfo collegeName), s'))
          else (Reply 200 (compose_profile s uid initialProfile userInfo collegeName), s))"

definition get_profile_me ::
  "gateway \<Rightarrow> store \<Rightarrow> time \<Rightarrow> auth_user \<Rightarrow> enhanced_profile outcome \<times> store" where
  \<comment> \<open>\<^verbatim>\<open>GET /v1/profile/me\<close>\<close>
  "get_profile_me gw s now caller = enriched_profile gw s now (sub caller)"

definition get_profile_user ::
  "gateway \<Rightarrow> store \<Rightarrow> time \<Rightarrow> user_id \<Rightarrow> enhanced_profile outcome \<times> store" where
  \<comment> \<open>\<^verbatim>\<open>GET /v1/profile/user/:userId\<close>\<close>
  "get_profile_user gw s now uid = enriched_profile gw s now uid"


definition gateway_unavailable :: "gateway \<Rightarrow> user_id \<Rightarrow> bool" where
  \<comment> \<open>the user lookup times out, fails on the network or is answered with a status that is
      not 2xx\<close>
  "gateway_unavailable gw uid =
     (case get_user gw uid of Ok2xx data \<Rightarrow> False | HttpError status \<Rightarrow> True | NoResponse \<Rightarrow> True)"

section \<open>Example data\<close>

text \<open>Concrete stores, gateways and requests on which the handlers are run below.\<close>

definition ascii_lower :: "jsstring \<Rightarrow> jsstring" where
  \<comment> \<open>\<^verbatim>\<open>toLowerCase\<close> on strings of ASCII characters, to run the handlers on examples\<close>
  "ascii_lower s = map (\<lambda>c. if 65 \<le> c \<and> c \<le> 90 then c + 32 else c) s"

definition example_user :: "college_id option \<Rightarrow> jsstring option \<Rightarrow> user_info" where
  "example_user cid dn =
     \<lparr>displayName = dn, user_name = None, email = Some (utf16 ''a@b.c''), avatarUrl = None,
      collegeId = cid, collegeMemberId = None, user_department = None, user_year = None,
      roles = Some [''STUDENT''], user_createdAt = Some 5\<rparr>"

definition example_gateway :: "user_info \<Rightarrow> gateway" where
  "example_gateway u =
     \<lparr>get_user = (\<lambda>uid. Ok2xx (Some \<lparr>user = Some u\<rparr>)),
      get_college = (\<lambda>cid. Ok2xx (Some \<lparr>college_name = Some (utf16 ''College'')\<rparr>))\<rparr>"

definition gateway_down :: gateway where
  "gateway_down = \<lparr>get_user = (\<lambda>uid. NoResponse), get_college = (\<lambda>cid. NoResponse)\<rparr>"

definition example_badge :: "jsstring option \<Rightarrow> bool \<Rightarrow> badge_definition" where
  "example_badge cat active =
     \<lparr>badge_name = utf16 ''Badge'', badge_description = utf16 ''A badge'', icon = None,
      color = None, category = cat, criteria = None, badge_rarity = COMMON,
      createdBy = ''f1'', isActive = active\<rparr>"

definition example_award :: "user_id \<Rightarrow> row_id \<Rightarrow> student_badge" where
  "example_award uid b =
     \<lparr>award_id = 0, studentId = uid, badgeId = b, awardedBy = ''f1'', awardedByName = None,
      reason = utf16 ''Well done'', projectId = None, eventId = None, awardedAt = 1\<rparr>"

definition example_badges :: "row_id \<rightharpoonup> badge_definition" where
  "example_badges =
     [1 \<mapsto> example_badge (Some (utf16 ''A'')) True, 2 \<mapsto> example_badge (Some (utf16 ''B'')) True,
      3 \<mapsto> example_badge (Some (utf16 ''C'')) True, 4 \<mapsto> example_badge (Some (utf16 ''D'')) True]"

definition store_four_categories :: store where
  \<comment> \<open>eight active awards of user \<open>u1\<close> over four categories, no policy row\<close>
  "store_four_categories =
     empty_store\<lparr>badgeDefinitions := example_badges,
       studentBadges := map (example_award ''u1'') [1, 2, 3, 4, 1, 2, 3, 4]\<rparr>"

definition store_three_categories :: store where
  \<comment> \<open>eight active awards of user \<open>u1\<close> over three categories, no policy row\<close>
  "store_three_categories =
     empty_store\<lparr>badgeDefinitions := example_badges,
       studentBadges := map (example_award ''u1'') [1, 2, 3, 1, 2, 3, 1, 2]\<rparr>"

definition example_cache_row :: eligibility_cache where
  "example_cache_row =
     \<lparr>cache_userId = ''u1'', canCreate = True, badgeCount = 9,
      categories = [utf16 ''A'', utf16 ''B'', utf16 ''C'', utf16 ''D''],
      lastChecked = 10, expiresAt = 1000\<rparr>"

definition store_cached :: store where
  \<comment> \<open>a cache row for user \<open>u1\<close> that expires at time 1000, and no award\<close>
  "store_cached = empty_store\<lparr>badgeEligibilityCache := [''u1'' \<mapsto> example_cache_row]\<rparr>"

definition gateway_not_found :: gateway where
  "gateway_not_found =
     \<lparr>get_user = (\<lambda>uid. HttpError 404), get_college = (\<lambda>cid. HttpError 404)\<rparr>"

definition example_caller :: auth_user where
  "example_caller =
     \<lparr>sub = ''f1'', user_ident = ''f1'', user_email = utf16 ''f@b.c'',
      user_roles = [''FACULTY''], user_displayName = Some (utf16 ''Prof'')\<rparr>"

definition example_award_body :: award_body where
  "example_award_body =
     \<lparr>badgeDefinitionId = 1, body_userId = ''u1'', body_reason = utf16 ''Well done'',
      body_projectId = None, body_eventId = None, body_awardedByName = None\<rparr>"

definition example_verify :: "string \<Rightarrow> jwt_payload option" where
  \<comment> \<open>two tokens verify: the one of student \<open>u1\<close> and the one of faculty member \<open>f1\<close>\<close>
  "example_verify token =
     (if token = ''good'' then
        Some \<lparr>payload_sub = ''u1'', payload_email = None, payload_roles = Some [''STUDENT''],
              payload_name = None\<rparr>
      else if token = ''faculty'' then
        Some \<lparr>payload_sub = ''f1'', payload_email = None, payload_roles = Some [''FACULTY''],
              payload_name = None\<rparr>
      else None)"

definition example_project_data :: project_data where
  "example_project_data =
     \<lparr>title = utf16 ''Compiler'', description = utf16 ''A compiler'', project_github = None,
      demoLink = None, project_image = None\<rparr>"

definition example_publication_data :: publication_data where
  "example_publication_data =
     \<lparr>publication_title = utf16 ''On proofs'', publication_year = 2020, link = None\<rparr>"

definition example_experience_data :: experience_data where
  "example_experience_data =
     \<lparr>area = utf16 ''AI'', experience_level = Expert, yearsExp = Some 3,
      experience_description = None\<rparr>"

definition store_owned :: store where
  \<comment> \<open>a project, a publication and an experience, all of user \<open>u2\<close>\<close>
  "store_owned =
     empty_store\<lparr>
       personalProjects :=
         [\<lparr>project_id = 1, project_userId = ''u2'', project_fields = example_project_data\<rparr>],
       publications :=
         [\<lparr>publication_id = 2, publication_userId = ''u2'',
           publication_fields = example_publication_data\<rparr>],
       experiences :=
         [\<lparr>experience_id = 3, experience_userId = ''u2'',
           experience_fields = example_experience_data\<rparr>]\<rparr>"

definition bearer :: "string \<Rightarrow> request" where
  "bearer token = \<lparr>authorization = Some (''Bearer '' @ token), request_user = None\<rparr>"

definition store_named :: store where
  \<comment> \<open>user \<open>u1\<close> has a profile named Ann with one skill\<close>
  "store_named =
     empty_store\<lparr>profiles :=
       [''u1'' \<mapsto> (new_profile 0 ''u1'' 1)\<lparr>name := Some (utf16 ''Ann''), skills := [utf16 ''Go'']\<rparr>],
       next_id := 1\<rparr>"

definition example_zod :: zod where
  \<comment> \<open>a cuid is a \<open>c\<close> followed by at least eight characters; the characters after the ninth
      count the row\<close>
  "example_zod =
     \<lparr>cuid = (\<lambda>t. case t of [] \<Rightarrow> False | c # rest \<Rightarrow> c = 99 \<and> 8 \<le> length rest),
      url = (\<lambda>t. take 4 t = utf16 ''http''),
      row_of = (\<lambda>t. length t - 9),
      ident_of = map char_of,
      year_now = 2025\<rparr>"

definition example_param :: "nat \<Rightarrow> jsstring" where
  \<comment> \<open>the path parameter of row \<open>k\<close>\<close>
  "example_param k = utf16 ''c00000000'' @ replicate k 48"

definition example_project_json :: "jsstring \<Rightarrow> project_json" where
  "example_project_json t =
     \<lparr>json_title = Text t, json_description = Text (utf16 ''A compiler''), json_github = Absent,
      json_demoLink = Absent, json_image = Absent\<rparr>"

definition example_publication_json :: "jsstring \<Rightarrow> publication_json" where
  "example_publication_json t =
     \<lparr>json_publication_title = Text t, json_year = Number 2020, json_link = Absent\<rparr>"

definition example_experience_json :: experience_json where
  "example_experience_json =
     \<lparr>json_area = Text (utf16 ''AI''), json_level = Text (utf16 ''Expert''),
      json_yearsExp = Number 3, json_experience_description = Absent\<rparr>"

section \<open>Verified properties\<close>

subsection \<open>Skills\<close>

lemma spec_cleaned_eq:
  "spec_cleaned n xs = take n (filter (\<lambda>skill. 0 < length skill) (map trim xs))"
  by (induction n xs rule: spec_cleaned.induct) auto

lemma profile_upsert_skills:
  "profile_upsert s now uid (\<lambda>p. p\<lparr>skills := xs\<rparr>) (\<lambda>p. p\<lparr>skills := xs\<rparr>) = (s', p) \<Longrightarrow>
     skills p = xs \<and> profiles s' uid = Some p \<and> current_skills s' uid = xs"
  by (auto simp: profile_upsert_def current_skills_def split: option.splits)

lemma put_skills_result:
  "put_skills s now uid xs = (r, s') \<Longrightarrow>
     r = Reply 200 (Skills (spec_cleaned 50 xs)) \<and>
     map_option skills (profiles s' uid) = Some (spec_cleaned 50 xs)"
  unfolding put_skills_def Let_def spec_cleaned_eq
  by (auto split: prod.splits dest!: profile_upsert_skills)

text \<open>
  Adding a skill the list already holds, compared case-insensitively, and adding to a
  list of 50 are both answered with 400, and the store is the one before.
\<close>

lemma post_skill_duplicate:
  assumes "list_ex (\<lambda>x. lc x = lc (trim skill)) (current_skills s uid)"
  shows "\<exists>m. post_skill lc s now uid skill = (Reply 400 (Message m), s)"
  using assms by (simp add: post_skill_def Let_def)

lemma post_skill_full:
  assumes "50 \<le> length (current_skills s uid)"
  shows "\<exists>m. post_skill lc s now uid skill = (Reply 400 (Message m), s)"
  using assms by (simp add: post_skill_def Let_def)

text \<open>
  Removing a skill whose path parameter decodes to a string the list does not hold
  answers 200 with the list as it was, and the list stored afterwards is the same.
\<close>

lemma delete_skill_absent:
  assumes "decodeURIComponent skill = Some d" and "d \<notin> set (current_skills s uid)"
  shows "fst (delete_skill s now uid skill) = Reply 200 (Skills (current_skills s uid)) \<and>
         current_skills (snd (delete_skill s now uid skill)) uid = current_skills s uid"
proof -
  have f: "filter (\<lambda>x. x \<noteq> d) (current_skills s uid) = current_skills s uid"
    using assms(2) by (auto simp: filter_id_conv)
  obtain s' p where u: "profile_upsert s now uid (\<lambda>p. p\<lparr>skills := current_skills s uid\<rparr>)
      (\<lambda>p. p\<lparr>skills := current_skills s uid\<rparr>) = (s', p)"
    by (cases "profile_upsert s now uid (\<lambda>p. p\<lparr>skills := current_skills s uid\<rparr>)
      (\<lambda>p. p\<lparr>skills := current_skills s uid\<rparr>)") simp
  from profile_upsert_skills [OF u] show ?thesis
    using assms(1) u by (simp add: delete_skill_def Let_def f)
qed

text \<open>
  C9. Removing a skill that is in no list is not always the no-op the specification asks
  for. The handler passes the path parameter to \<^verbatim>\<open>decodeURIComponent\<close>, which throws
  \<^verbatim>\<open>URIError\<close> when a \<^verbatim>\<open>%\<close> starts no escape sequence, and nothing in the handler catches
  it: for the skills \<^verbatim>\<open>%\<close> and \<^verbatim>\<open>50%\<close> the request fails and no list is returned,
  whatever the stored list is. The store is not touched.
\<close>

theorem delete_skill_malformed_escape:
  "delete_skill s now uid (utf16 ''%'') = (Threw URIError, s) \<and>
   delete_skill s now uid (utf16 ''50%'') = (Threw URIError, s)"
  by (simp add: delete_skill_def utf16_def)

text \<open>
  C10. The bulk update answers 200 with, and stores, the submitted list with every entry
  trimmed, the empty entries dropped and no more than its first 50 entries, in
  submission order. It compares no entries: a skill submitted twice is stored twice, and
  adding the same skill once more through the single-skill endpoint is then rejected as
  a duplicate.
\<close>

theorem put_skills_cleans:
  "fst (put_skills s now uid xs) = Reply 200 (Skills (spec_cleaned 50 xs)) \<and>
   map_option skills (profiles (snd (put_skills s now uid xs)) uid) = Some (spec_cleaned 50 xs) \<and>
   (trim x \<noteq> [] \<longrightarrow>
      map_option skills (profiles (snd (put_skills s now uid [x, x])) uid) = Some [trim x, trim x] \<and>
      post_skill lc (snd (put_skills s now uid [x, x])) now' uid x =
        (Reply 400 (Message ''Skill already exists''), snd (put_skills s now uid [x, x])))"
proof -
  have a: "fst (put_skills s now uid xs) = Reply 200 (Skills (spec_cleaned 50 xs)) \<and>
   map_option skills (profiles (snd (put_skills s now uid xs)) uid) = Some (spec_cleaned 50 xs)" for xs
    using put_skills_result [of s now uid xs] by (cases "put_skills s now uid xs") simp
  have b: "map_option skills (profiles (snd (put_skills s now uid [x, x])) uid) = Some [trim x, trim x] \<and>
      post_skill lc (snd (put_skills s now uid [x, x])) now' uid x =
        (Reply 400 (Message ''Skill already exists''), snd (put_skills s now uid [x, x]))"
    if t: "trim x \<noteq> []"
  proof -
    have c: "spec_cleaned 50 [x, x] = [trim x, trim x]"
      using t by (simp add: spec_cleaned_eq)
    have d: "map_option skills (profiles (snd (put_skills s now uid [x, x])) uid) = Some [trim x, trim x]"
      using a [of "[x, x]"] c by simp
    then have "current_skills (snd (put_skills s now uid [x, x])) uid = [trim x, trim x]"
      by (auto simp: current_skills_def split: option.splits)
    then show ?thesis using d t by (simp add: post_skill_def Let_def)
  qed
  show ?thesis using a b by blast
qed

theorem put_skills_cleans_witness:
  "fst (put_skills empty_store 0 ''u1'' [utf16 '' Go '', utf16 ''  '', utf16 ''Go'']) =
     Reply 200 (Skills [utf16 ''Go'', utf16 ''Go'']) \<and>
   trim (utf16 ''Go'') \<noteq> [] \<and>
   post_skill ascii_lower (snd (put_skills empty_store 0 ''u1'' [utf16 ''Go'', utf16 ''Go'']))
       1 ''u1'' (utf16 ''Go'') =
     (Reply 400 (Message ''Skill already exists''),
      snd (put_skills empty_store 0 ''u1'' [utf16 ''Go'', utf16 ''Go'']))"
proof -
  have t: "trim (utf16 ''Go'') \<noteq> []"
    by (simp add: trim_def utf16_def is_white_space_def)
  have c: "spec_cleaned 50 [utf16 '' Go '', utf16 ''  '', utf16 ''Go''] =
      [utf16 ''Go'', utf16 ''Go'']"
    by (simp add: spec_cleaned_eq trim_def utf16_def is_white_space_def)
  note w = put_skills_cleans [of empty_store 0 "''u1''"
      "[utf16 '' Go '', utf16 ''  '', utf16 ''Go'']" "utf16 ''Go''" ascii_lower 1]
  from w have "fst (put_skills empty_store 0 ''u1'' [utf16 '' Go '', utf16 ''  '', utf16 ''Go'']) =
     Reply 200 (Skills [utf16 ''Go'', utf16 ''Go''])"
    unfolding c by (rule conjunct1)
  moreover from w t have "post_skill ascii_lower
       (snd (put_skills empty_store 0 ''u1'' [utf16 ''Go'', utf16 ''Go''])) 1 ''u1'' (utf16 ''Go'') =
     (Reply 400 (Message ''Skill already exists''),
      snd (put_skills empty_store 0 ''u1'' [utf16 ''Go'', utf16 ''Go'']))"
    by blast
  ultimately show ?thesis using t by blast
qed

subsection \<open>Badge eligibility\<close>

lemma those_map_filter:
  "those (map f xs) = Some ys \<Longrightarrow> List.map_filter f xs = ys"
  by (induction xs arbitrary: ys) (auto simp: List.map_filter_simps split: option.splits)

lemma those_map_Some:
  "list_all (\<lambda>x. f x \<noteq> None) xs \<Longrightarrow> those (map f xs) = Some (List.map_filter f xs)"
  by (induction xs) (auto simp: List.map_filter_simps split: option.splits)

lemma find_user_badges_defs:
  assumes "find_user_badges s uid = Some ubs"
  shows "map snd (filter (\<lambda>award. isActive (snd award)) ubs) = spec_active_definitions s uid"
proof -
  let ?as = "filter (\<lambda>award. studentId award = uid) (studentBadges s)"
  have "ubs = List.map_filter (\<lambda>award. map_option (Pair award) (badgeDefinitions s (badgeId award))) ?as"
    using assms those_map_filter unfolding find_user_badges_def by fastforce
  moreover have "map snd (List.map_filter (\<lambda>award. map_option (Pair award) (g award)) xs)
      = List.map_filter g xs" for g :: "student_badge \<Rightarrow> badge_definition option" and xs
    by (induction xs) (auto simp: List.map_filter_simps split: option.splits)
  ultimately have m: "map snd ubs = List.map_filter (\<lambda>award. badgeDefinitions s (badgeId award)) ?as"
    by simp
  have "map snd (filter (\<lambda>award. isActive (snd award)) ubs) = filter isActive (map snd ubs)"
    by (simp add: filter_map comp_def)
  then show ?thesis
    unfolding spec_active_definitions_def m by simp
qed

lemma find_user_badges_Some:
  assumes "awards_reference_definitions s"
  shows "\<exists>ubs. find_user_badges s uid = Some ubs"
proof -
  have "list_all (\<lambda>award. map_option (Pair award) (badgeDefinitions s (badgeId award)) \<noteq> None)
      (filter (\<lambda>award. studentId award = uid) (studentBadges s))"
    using assms unfolding awards_reference_definitions_def by (auto simp: list_all_iff)
  from those_map_Some [OF this] show ?thesis unfolding find_user_badges_def by blast
qed

lemma new_Set_props: "set (new_Set xs) = set xs" "distinct (new_Set xs)"
  "length (new_Set xs) = card (set xs)"
proof -
  show "set (new_Set xs) = set xs" "distinct (new_Set xs)" by (simp_all add: new_Set_def)
  then show "length (new_Set xs) = card (set xs)" using distinct_card by fastforce
qed

lemma truthy_categories:
  assumes "list_all (\<lambda>d. category d \<noteq> Some []) ds"
  shows "map the (filter truthy (map category ds)) = List.map_filter category ds"
  using assms by (induction ds) (auto simp: List.map_filter_simps truthy_def split: option.splits)

lemma active_definitions_stored:
  "d \<in> set (spec_active_definitions s uid) \<Longrightarrow> \<exists>i. badgeDefinitions s i = Some d"
  by (auto simp: spec_active_definitions_def List.map_filter_def)

lemma or_int_policy:
  assumes "thresholds_valid s cid"
  shows "or_int (map_option eventCreationRequired (badgePolicies s cid)) 8 = spec_required_badges s cid"
    and "or_int (map_option categoryDiversityMin (badgePolicies s cid)) 4 = spec_required_categories s cid"
  using assms
  by (auto simp: thresholds_valid_def or_int_def spec_required_badges_def
      spec_required_categories_def split: option.splits)

lemma policies_valid_thresholds: "policies_valid s \<Longrightarrow> thresholds_valid s cid"
  by (auto simp: policies_valid_def thresholds_valid_def split: option.splits)

lemma categories_nonempty_visible: "categories_nonempty s \<Longrightarrow> categories_visible s uid"
  using active_definitions_stored
  unfolding categories_nonempty_def categories_visible_def list_all_iff by blast

lemma fresh_eligibility_reply:
  assumes pol: "thresholds_valid s cid" and cat: "categories_visible s uid"
    and fk: "awards_reference_definitions s"
  shows "\<exists>cats. set cats = spec_categories s uid \<and> distinct cats \<and>
    fst (fresh_eligibility s now uid cid) =
      Reply 200 (Eligibility_fresh (spec_can_create s uid cid)
        (length (spec_active_definitions s uid)) (spec_required_badges s cid) cats
        (spec_required_categories s cid) now)"
proof -
  obtain ubs where u: "find_user_badges s uid = Some ubs"
    using find_user_badges_Some [OF fk] by blast
  let ?act = "filter (\<lambda>award. isActive (snd award)) ubs"
  let ?cats = "new_Set (map the (filter truthy (map (\<lambda>award. category (snd award)) ?act)))"
  have a: "map snd ?act = spec_active_definitions s uid"
    using find_user_badges_defs [OF u] .
  then have len: "length ?act = length (spec_active_definitions s uid)"
    by (metis length_map)
  from truthy_categories [OF cat [unfolded categories_visible_def]]
  have "map the (filter truthy (map (\<lambda>award. category (snd award)) ?act)) =
      List.map_filter category (spec_active_definitions s uid)"
    unfolding a [symmetric] by (simp add: comp_def)
  then have c: "set ?cats = spec_categories s uid" "distinct ?cats"
      "length ?cats = card (spec_categories s uid)"
    unfolding spec_categories_def by (simp_all add: new_Set_props)
  have "fst (fresh_eligibility s now uid cid) =
      Reply 200 (Eligibility_fresh (spec_can_create s uid cid)
        (length (spec_active_definitions s uid)) (spec_required_badges s cid) ?cats
        (spec_required_categories s cid) now)"
    unfolding fresh_eligibility_def Let_def u or_int_policy [OF pol] spec_can_create_def
    by (simp add: len c(3))
  with c show ?thesis by blast
qed

text \<open>
  C1. On a cache miss or an expired row, for a user whose college the gateway resolves,
  the reply is 200 and its \<^verbatim>\<open>canCreate\<close> is true exactly when the number of the user's
  awards with an active badge definition reaches the policy's \<^verbatim>\<open>eventCreationRequired\<close>
  (8 without a policy row) and the number of distinct categories among them reaches its
  \<^verbatim>\<open>categoryDiversityMin\<close> (4 without a policy row). With 8 awards under the thresholds
  (8, 4), four categories give true and three give false. The store is one the service's
  writes produce: thresholds of at least 1, no empty category, every award with its
  definition (see the store invariants below).
\<close>

theorem fresh_eligibility_can_create:
  assumes "resolves_college gw uid cid" and "cache_stale s now uid"
    and "thresholds_valid s cid" and "categories_visible s uid"
    and "awards_reference_definitions s"
  shows "reply_canCreate (fst (get_eligibility gw s now uid)) = Some (spec_can_create s uid cid) \<and>
    (\<exists>cats. set cats = spec_categories s uid \<and> distinct cats \<and>
       fst (get_eligibility gw s now uid) =
         Reply 200 (Eligibility_fresh (spec_can_create s uid cid)
           (length (spec_active_definitions s uid)) (spec_required_badges s cid) cats
           (spec_required_categories s cid) now)) \<and>
    (length (spec_active_definitions s uid) = 8 \<and> spec_required_badges s cid = 8 \<and>
       spec_required_categories s cid = 4 \<longrightarrow>
       (card (spec_categories s uid) = 4 \<longrightarrow>
          reply_canCreate (fst (get_eligibility gw s now uid)) = Some True) \<and>
       (card (spec_categories s uid) = 3 \<longrightarrow>
          reply_canCreate (fst (get_eligibility gw s now uid)) = Some False))"
proof -
  have g: "get_eligibility gw s now uid = fresh_eligibility s now uid cid"
    using assms(1,2) unfolding resolves_college_def cache_stale_def get_eligibility_def
    by (auto split: http.splits option.splits)
  obtain cats where c: "set cats = spec_categories s uid" "distinct cats"
    "fst (fresh_eligibility s now uid cid) =
      Reply 200 (Eligibility_fresh (spec_can_create s uid cid)
        (length (spec_active_definitions s uid)) (spec_required_badges s cid) cats
        (spec_required_categories s cid) now)"
    using fresh_eligibility_reply [OF assms(3,4,5)] by blast
  have r: "reply_canCreate (fst (get_eligibility gw s now uid)) = Some (spec_can_create s uid cid)"
    unfolding g c(3) by (simp add: reply_canCreate_def)
  show ?thesis
    using r c unfolding g by (auto simp: spec_can_create_def)
qed

lemmas example_defs = store_four_categories_def store_three_categories_def empty_store_def
  example_award_def example_badges_def example_badge_def example_gateway_def example_user_def

lemma example_four:
  "length (spec_active_definitions store_four_categories ''u1'') = 8"
  "spec_categories store_four_categories ''u1'' = {utf16 ''A'', utf16 ''B'', utf16 ''C'', utf16 ''D''}"
  by (auto simp: spec_categories_def spec_active_definitions_def example_defs List.map_filter_simps)

lemma example_three:
  "length (spec_active_definitions store_three_categories ''u1'') = 8"
  "spec_categories store_three_categories ''u1'' = {utf16 ''A'', utf16 ''B'', utf16 ''C''}"
  by (auto simp: spec_categories_def spec_active_definitions_def example_defs List.map_filter_simps)

lemma example_stores_ok:
  "thresholds_valid store_four_categories ''c1''" "categories_visible store_four_categories ''u1''"
  "awards_reference_definitions store_four_categories"
  "thresholds_valid store_three_categories ''c1''" "categories_visible store_three_categories ''u1''"
  "awards_reference_definitions store_three_categories"
  by (simp_all add: thresholds_valid_def categories_visible_def spec_active_definitions_def
      awards_reference_definitions_def example_defs utf16_def List.map_filter_simps)

theorem fresh_eligibility_can_create_witness:
  "reply_canCreate (fst (get_eligibility (example_gateway (example_user (Some ''c1'') None))
      store_four_categories 0 ''u1'')) = Some True \<and>
   reply_canCreate (fst (get_eligibility (example_gateway (example_user (Some ''c1'') None))
      store_three_categories 0 ''u1'')) = Some False"
proof -
  let ?gw = "example_gateway (example_user (Some ''c1'') None)"
  have r: "resolves_college ?gw ''u1'' ''c1''"
    by (simp add: resolves_college_def example_gateway_def example_user_def)
  have s4: "cache_stale store_four_categories 0 ''u1''"
    and s3: "cache_stale store_three_categories 0 ''u1''"
    by (simp_all add: cache_stale_def store_four_categories_def store_three_categories_def
        empty_store_def)
  have t: "spec_required_badges store_four_categories ''c1'' = 8"
    "spec_required_categories store_four_categories ''c1'' = 4"
    "spec_required_badges store_three_categories ''c1'' = 8"
    "spec_required_categories store_three_categories ''c1'' = 4"
    by (simp_all add: spec_required_badges_def spec_required_categories_def
        store_four_categories_def store_three_categories_def empty_store_def)
  have c4: "card (spec_categories store_four_categories ''u1'') = 4"
    unfolding example_four by (simp add: utf16_def)
  have c3: "card (spec_categories store_three_categories ''u1'') = 3"
    unfolding example_three by (simp add: utf16_def)
  from fresh_eligibility_can_create [OF r s4 example_stores_ok(1,2,3)] example_four(1) t c4
  have "reply_canCreate (fst (get_eligibility ?gw store_four_categories 0 ''u1'')) = Some True"
    by blast
  moreover
  from fresh_eligibility_can_create [OF r s3 example_stores_ok(4,5,6)] example_three(1) t c3
  have "reply_canCreate (fst (get_eligibility ?gw store_three_categories 0 ''u1'')) = Some False"
    by blast
  ultimately show ?thesis by blast
qed

text \<open>
  The handler asks the gateway for the user's college before it looks at the cache. With
  a cache row that has not expired, an unreachable gateway is answered 500 and a user
  without a college 400: the cached values are not returned.
\<close>

theorem cached_eligibility_counterexample:
  "badgeEligibilityCache store_cached ''u1'' = Some example_cache_row \<and>
   20 < expiresAt example_cache_row \<and>
   fst (get_eligibility gateway_down store_cached 20 ''u1'') = Reply 500 Check_failed \<and>
   fst (get_eligibility (example_gateway (example_user None None)) store_cached 20 ''u1'') =
     Reply 400 No_college"
  by (simp add: store_cached_def empty_store_def example_cache_row_def get_eligibility_def
      gateway_down_def example_gateway_def example_user_def)

text \<open>
  C2 (amended). When the gateway resolves the user's college and the cache row of the
  user has not expired, the reply is 200 with the cached \<^verbatim>\<open>canCreate\<close>, \<^verbatim>\<open>badgeCount\<close>,
  \<^verbatim>\<open>categories\<close> and \<^verbatim>\<open>lastChecked\<close> as stored; the store is unchanged, the only calls
  are the gateway's and the cache lookup, and the reply is the same whatever the award,
  badge definition and policy tables hold. When the gateway fails, or reports no college,
  the reply is 500, or 400, whether or not a cache row is there.
\<close>

theorem cached_eligibility_verbatim:
  assumes "resolves_college gw uid cid"
    and "badgeEligibilityCache s uid = Some c" and "now < expiresAt c"
  shows "get_eligibility gw s now uid =
      (Reply 200 (Eligibility_cached (canCreate c) (badgeCount c) (categories c) (lastChecked c)),
       s, [Users_get uid, Cache_find uid]) \<and>
    Awards_find uid \<notin> set (snd (snd (get_eligibility gw s now uid))) \<and>
    fst (get_eligibility gw (s\<lparr>studentBadges := awards, badgeDefinitions := defs,
           badgePolicies := policies\<rparr>) now uid) =
      fst (get_eligibility gw s now uid) \<and>
    (get_user gw' uid = NoResponse \<or> get_user gw' uid = HttpError status \<longrightarrow>
       get_eligibility gw' s now uid = (Reply 500 Check_failed, s, [Users_get uid])) \<and>
    (get_user gw' uid = Ok2xx data \<and> \<not> truthy_id (Option.bind (Option.bind data user) collegeId) \<longrightarrow>
       get_eligibility gw' s now uid = (Reply 400 No_college, s, [Users_get uid]))"
proof -
  have a: "get_eligibility gw s' now uid =
      (Reply 200 (Eligibility_cached (canCreate c) (badgeCount c) (categories c) (lastChecked c)),
       s', [Users_get uid, Cache_find uid])"
    if "badgeEligibilityCache s' uid = Some c" for s'
    using assms(1,3) that unfolding resolves_college_def get_eligibility_def
    by (auto split: http.splits option.splits)
  have b: "get_eligibility gw' s now uid = (Reply 500 Check_failed, s, [Users_get uid])"
    if "get_user gw' uid = NoResponse \<or> get_user gw' uid = HttpError status"
    using that unfolding get_eligibility_def by auto
  have c: "get_eligibility gw' s now uid = (Reply 400 No_college, s, [Users_get uid])"
    if "get_user gw' uid = Ok2xx data \<and> \<not> truthy_id (Option.bind (Option.bind data user) collegeId)"
    using that unfolding get_eligibility_def truthy_id_def by (auto split: option.splits)
  show ?thesis
    using a [of s] a [of "s\<lparr>studentBadges := awards, badgeDefinitions := defs,
           badgePolicies := policies\<rparr>"] assms(2) b c
    by simp
qed

theorem cached_eligibility_verbatim_witness:
  "get_eligibility (example_gateway (example_user (Some ''c1'') None)) store_cached 20 ''u1'' =
     (Reply 200 (Eligibility_cached True 9 [utf16 ''A'', utf16 ''B'', utf16 ''C'', utf16 ''D''] 10),
      store_cached, [Users_get ''u1'', Cache_find ''u1'']) \<and>
   get_eligibility gateway_down store_cached 20 ''u1'' =
     (Reply 500 Check_failed, store_cached, [Users_get ''u1''])"
proof -
  let ?gw = "example_gateway (example_user (Some ''c1'') None)"
  have r: "resolves_college ?gw ''u1'' ''c1''"
    by (simp add: resolves_college_def example_gateway_def example_user_def)
  have c: "badgeEligibilityCache store_cached ''u1'' = Some example_cache_row"
    by (simp add: store_cached_def empty_store_def)
  have e: "20 < expiresAt example_cache_row"
    by (simp add: example_cache_row_def)
  have d: "get_user gateway_down ''u1'' = NoResponse"
    by (simp add: gateway_down_def)
  note w = cached_eligibility_verbatim [OF r c e, where gw' = gateway_down and status = 0]
  from w have "get_eligibility ?gw store_cached 20 ''u1'' =
     (Reply 200 (Eligibility_cached True 9 [utf16 ''A'', utf16 ''B'', utf16 ''C'', utf16 ''D''] 10),
      store_cached, [Users_get ''u1'', Cache_find ''u1''])"
    by (simp add: example_cache_row_def)
  moreover from w d have "get_eligibility gateway_down store_cached 20 ''u1'' =
     (Reply 500 Check_failed, store_cached, [Users_get ''u1''])"
    by blast
  ultimately show ?thesis by blast
qed

subsection \<open>Store invariants\<close>


lemma post_policy_keeps_thresholds:
  assumes "policies_valid s"
  shows "policies_valid (snd (post_policy s body))"
  using assms unfolding policies_valid_def post_policy_def Let_def
  by (auto split: option.splits)

lemma if_visible_nonempty: "if_visible v \<noteq> Some []"
  by (simp add: if_visible_def split: option.splits)

lemma post_badge_definition_keeps_categories:
  assumes "categories_nonempty s"
  shows "categories_nonempty (snd (post_badge_definition active s caller data))"
  using assms if_visible_nonempty unfolding categories_nonempty_def post_badge_definition_def Let_def
  by auto

lemma profile_upsert_tables:
  "profile_upsert s now uid upd cre = (s', p) \<Longrightarrow>
     badgeDefinitions s' = badgeDefinitions s \<and> studentBadges s' = studentBadges s \<and>
     badgePolicies s' = badgePolicies s"
  by (auto simp: profile_upsert_def split: option.splits)

lemma post_badge_award_keeps_references:
  assumes "awards_reference_definitions s"
  shows "awards_reference_definitions (fst (snd (post_badge_award lc gw flag net s now caller d)))"
proof -
  obtain s1 p where u: "profile_upsert s now (body_userId d) (\<lambda>p. p) (\<lambda>p. p) = (s1, p)"
    by (cases "profile_upsert s now (body_userId d) (\<lambda>p. p) (\<lambda>p. p)") simp
  note t = profile_upsert_tables [OF u]
  have s1: "awards_reference_definitions s1"
    using assms t unfolding awards_reference_definitions_def by simp
  show ?thesis
    using assms s1 u t unfolding post_badge_award_def Let_def awards_reference_definitions_def
    by (auto split: http.splits option.splits prod.splits)
qed

lemma post_policy_keeps_tables:
  "badgeDefinitions (snd (post_policy s body)) = badgeDefinitions s"
  "studentBadges (snd (post_policy s body)) = studentBadges s"
  by (simp_all add: post_policy_def Let_def split: option.splits)

lemma post_badge_definition_keeps_others:
  assumes "policies_valid s" and "awards_reference_definitions s"
  shows "policies_valid (snd (post_badge_definition active s caller data))"
    and "awards_reference_definitions (snd (post_badge_definition active s caller data))"
  using assms
  by (auto simp: policies_valid_def awards_reference_definitions_def post_badge_definition_def
      Let_def list_all_iff)

lemma post_badge_award_keeps_tables:
  "badgeDefinitions (fst (snd (post_badge_award lc gw flag net s now caller d))) = badgeDefinitions s"
  "badgePolicies (fst (snd (post_badge_award lc gw flag net s now caller d))) = badgePolicies s"
proof -
  obtain s1 p where u: "profile_upsert s now (body_userId d) (\<lambda>p. p) (\<lambda>p. p) = (s1, p)"
    by (cases "profile_upsert s now (body_userId d) (\<lambda>p. p) (\<lambda>p. p)") simp
  note t = profile_upsert_tables [OF u]
  show "badgeDefinitions (fst (snd (post_badge_award lc gw flag net s now caller d))) = badgeDefinitions s"
    "badgePolicies (fst (snd (post_badge_award lc gw flag net s now caller d))) = badgePolicies s"
    using u t unfolding post_badge_award_def Let_def
    by (auto split: http.splits option.splits prod.splits)
qed

lemma get_eligibility_keeps_tables:
  "badgeDefinitions (fst (snd (get_eligibility gw s now uid))) = badgeDefinitions s"
  "badgePolicies (fst (snd (get_eligibility gw s now uid))) = badgePolicies s"
  "studentBadges (fst (snd (get_eligibility gw s now uid))) = studentBadges s"
  by (auto simp: get_eligibility_def fresh_eligibility_def Let_def
      split: http.splits option.splits)

subsection \<open>Badge awards\<close>

text \<open>
  C3. When the gateway answers the lookup of the target user with 404, or with an empty
  body, the award request is answered 404 and the store is the one before: no award and
  no profile is written. When the lookup fails in any other way (another status, no
  response) the answer is 500, "Failed to verify user", and again nothing is written.
\<close>

theorem award_unknown_user:
  "(get_user gw (body_userId d) = HttpError 404 \<or> get_user gw (body_userId d) = Ok2xx None \<longrightarrow>
      post_badge_award lc gw flag net s now caller d =
        (Reply 404 (User_not_found (body_userId d)), s, [])) \<and>
   ((get_user gw (body_userId d) = HttpError status \<and> status \<noteq> 404) \<or>
    get_user gw (body_userId d) = NoResponse \<longrightarrow>
      post_badge_award lc gw flag net s now caller d = (Reply 500 Verify_failed, s, []))"
  by (auto simp: post_badge_award_def)

text \<open>
  C8. Once the target user is verified and the badge definition exists, the reply is 201
  with the created award and the award is in the store, and neither the reply nor the
  store depends on the feature flag or on how the network service answers. With the flag
  set to \<^verbatim>\<open>false\<close> no post is sent; otherwise exactly one is.
\<close>

theorem award_survives_notification:
  assumes "get_user gw (body_userId d) = Ok2xx (Some r)"
    and "badgeDefinitions s (badgeDefinitionId d) = Some bd"
  shows "fst (post_badge_award lc gw flag net s now caller d) =
      fst (post_badge_award lc gw flag' net' s now caller d) \<and>
    fst (snd (post_badge_award lc gw flag net s now caller d)) =
      fst (snd (post_badge_award lc gw flag' net' s now caller d)) \<and>
    (\<exists>badge. fst (post_badge_award lc gw flag net s now caller d) =
         Reply 201 (Award_created badge bd) \<and>
       studentId badge = body_userId d \<and> badgeId badge = badgeDefinitionId d \<and>
       badge \<in> set (studentBadges (fst (snd (post_badge_award lc gw flag net s now caller d))))) \<and>
    snd (snd (post_badge_award lc gw (Some ''false'') net s now caller d)) = [] \<and>
    (flag \<noteq> Some ''false'' \<longrightarrow>
       length (snd (snd (post_badge_award lc gw flag net s now caller d))) = 1)"
proof -
  obtain s1 p where u: "profile_upsert s now (body_userId d) (\<lambda>p. p) (\<lambda>p. p) = (s1, p)"
    by (cases "profile_upsert s now (body_userId d) (\<lambda>p. p) (\<lambda>p. p)") simp
  have b: "badgeDefinitions s1 (badgeDefinitionId d) = Some bd"
    using profile_upsert_tables [OF u] assms(2) by simp
  let ?badge = "\<lparr>award_id = next_id s1, studentId = body_userId d,
      badgeId = badgeDefinitionId d, awardedBy = sub caller,
      awardedByName = body_awardedByName d, reason = body_reason d,
      projectId = body_projectId d, eventId = body_eventId d, awardedAt = now\<rparr>"
  let ?s2 = "s1\<lparr>studentBadges := studentBadges s1 @ [?badge], next_id := Suc (next_id s1)\<rparr>"
  have run: "post_badge_award lc gw f n s now caller d =
      (Reply 201 (Award_created ?badge bd), ?s2,
       snd (createBadgeAwardPost lc f n ?badge bd caller (user r)))" for f n
    unfolding post_badge_award_def Let_def assms(1) u
    by (simp add: b split: prod.splits)
  have off: "snd (createBadgeAwardPost lc (Some ''false'') n ?badge bd caller (user r)) = []" for n
    by (simp add: createBadgeAwardPost_def)
  have on: "length (snd (createBadgeAwardPost lc flag net ?badge bd caller (user r))) = 1"
    if "flag \<noteq> Some ''false''"
    using that by (simp add: createBadgeAwardPost_def Let_def split: http.splits option.splits)
  show ?thesis
    unfolding run using off on by simp
qed

theorem award_unknown_user_witness:
  "post_badge_award ascii_lower gateway_not_found None (\<lambda>post. NoResponse) store_four_categories 7
     example_caller example_award_body =
     (Reply 404 (User_not_found ''u1''), store_four_categories, []) \<and>
   post_badge_award ascii_lower gateway_down None (\<lambda>post. NoResponse) store_four_categories 7
     example_caller example_award_body =
     (Reply 500 Verify_failed, store_four_categories, [])"
proof -
  have u: "body_userId example_award_body = ''u1''"
    by (simp add: example_award_body_def)
  have a: "get_user gateway_not_found (body_userId example_award_body) = HttpError 404"
    by (simp add: gateway_not_found_def)
  have b: "get_user gateway_down (body_userId example_award_body) = NoResponse"
    by (simp add: gateway_down_def)
  from award_unknown_user [where gw = gateway_not_found and d = example_award_body
      and lc = ascii_lower and flag = None and net = "\<lambda>post. NoResponse"
      and s = store_four_categories and now = 7 and caller = example_caller and status = 0] a
  have "post_badge_award ascii_lower gateway_not_found None (\<lambda>post. NoResponse)
      store_four_categories 7 example_caller example_award_body =
     (Reply 404 (User_not_found ''u1''), store_four_categories, [])"
    unfolding u by blast
  moreover
  from award_unknown_user [where gw = gateway_down and d = example_award_body
      and lc = ascii_lower and flag = None and net = "\<lambda>post. NoResponse"
      and s = store_four_categories and now = 7 and caller = example_caller and status = 0] b
  have "post_badge_award ascii_lower gateway_down None (\<lambda>post. NoResponse)
      store_four_categories 7 example_caller example_award_body =
     (Reply 500 Verify_failed, store_four_categories, [])"
    by blast
  ultimately show ?thesis by blast
qed

theorem award_survives_notification_witness:
  "fst (post_badge_award ascii_lower (example_gateway (example_user (Some ''c1'') None)) None
      (\<lambda>post. NoResponse) store_four_categories 7 example_caller example_award_body) =
   fst (post_badge_award ascii_lower (example_gateway (example_user (Some ''c1'') None))
      (Some ''false'') (\<lambda>post. Ok2xx (Some 3)) store_four_categories 7 example_caller
      example_award_body) \<and>
   snd (snd (post_badge_award ascii_lower (example_gateway (example_user (Some ''c1'') None))
      (Some ''false'') (\<lambda>post. NoResponse) store_four_categories 7 example_caller
      example_award_body)) = [] \<and>
   length (snd (snd (post_badge_award ascii_lower (example_gateway (example_user (Some ''c1'') None))
      None (\<lambda>post. NoResponse) store_four_categories 7 example_caller example_award_body))) = 1"
proof -
  let ?gw = "example_gateway (example_user (Some ''c1'') None)"
  have a: "get_user ?gw (body_userId example_award_body) =
      Ok2xx (Some \<lparr>user = Some (example_user (Some ''c1'') None)\<rparr>)"
    by (simp add: example_gateway_def)
  have b: "badgeDefinitions store_four_categories (badgeDefinitionId example_award_body) =
      Some (example_badge (Some (utf16 ''A'')) True)"
    by (simp add: store_four_categories_def example_award_body_def example_badges_def)
  have n: "(None :: string option) \<noteq> Some ''false''" by simp
  from award_survives_notification [OF a b, where lc = ascii_lower and flag = None
      and net = "\<lambda>post. NoResponse" and flag' = "Some ''false''"
      and net' = "\<lambda>post. Ok2xx (Some 3)" and now = 7 and caller = example_caller] n
  show ?thesis by blast
qed

subsection \<open>Authentication and roles\<close>

lemma requireAuth_rejects:
  assumes "\<not> credential_accepted verify req"
  shows "\<exists>m. requireAuth verify req None = (req, Some (401, m))"
  using assms unfolding credential_accepted_def requireAuth_def send_def
  by (auto split: option.splits)

lemma requireRole_rejects:
  assumes "\<not> credential_accepted verify req"
  shows "\<exists>r m e. requireRole verify required req None = (r, Some (401, m), e)"
proof -
  obtain m where a: "requireAuth verify req None = (req, Some (401, m))"
    using requireAuth_rejects [OF assms] by blast
  show ?thesis
    unfolding requireRole_def a by (auto simp: send_def Let_def split: option.splits)
qed

text \<open>
  The role check reads the roles of a user the failed authentication never set: it
  throws, but only after the 401 has been sent.
\<close>

lemma requireRole_throws_after_reply:
  "requireRole verify required \<lparr>authorization = None, request_user = None\<rparr> None =
     (\<lparr>authorization = None, request_user = None\<rparr>,
      Some (401, ''Missing authorization token''), Some TypeError)"
  by (simp add: requireRole_def requireAuth_def send_def)

lemma before_handler_invalid: "before_handler None hooks req = Rejected 400 ''Bad Request''"
  by (simp add: before_handler_def)

lemma preHandlers_sent: "preHandlers hooks req (Some sent) = (req, Some sent, None)"
  by (cases hooks) simp_all

lemma before_handler_unauthenticated:
  assumes "\<not> credential_accepted verify req"
  shows "\<exists>m. before_handler (Some input) [requireRole verify required] req = Rejected 401 m"
    and "\<exists>m. before_handler (Some input) (auth_hook verify # hooks) req = Rejected 401 m"
proof -
  obtain m where a: "requireAuth verify req None = (req, Some (401, m))"
    using requireAuth_rejects [OF assms] by blast
  obtain r' m' e where b: "requireRole verify required req None = (r', Some (401, m'), e)"
    using requireRole_rejects [OF assms] by blast
  show "\<exists>m. before_handler (Some input) [requireRole verify required] req = Rejected 401 m"
    using b by (cases e) (simp_all add: before_handler_def)
  show "\<exists>m. before_handler (Some input) (auth_hook verify # hooks) req = Rejected 401 m"
    by (simp add: before_handler_def auth_hook_def a preHandlers_sent)
qed

lemma auth_hook_accepts:
  assumes "authenticated verify req = Some caller"
  shows "auth_hook verify req None = (req\<lparr>request_user := Some caller\<rparr>, None, None)"
  using assms unfolding authenticated_def auth_hook_def requireAuth_def
  by (auto split: option.splits if_splits)

lemma requireRole_accepts:
  assumes "authenticated verify req = Some caller"
  shows "requireRole verify required (req\<lparr>request_user := u\<rparr>) None =
     (req\<lparr>request_user := Some caller\<rparr>,
      if has_role required caller then None else Some (403, ''Insufficient permissions''),
      None)"
  using assms unfolding authenticated_def requireRole_def requireAuth_def has_role_def
  by (auto simp: send_def Let_def split: option.splits if_splits)

lemma credential_accepted_authenticated:
  "credential_accepted verify req = (authenticated verify req \<noteq> None)"
  by (auto simp: credential_accepted_def authenticated_def split: option.splits)

lemma before_handler_auth:
  assumes "authenticated verify req = Some caller"
  shows "before_handler (Some input) [auth_hook verify] req = Passed (input, caller)"
  by (simp add: before_handler_def auth_hook_accepts [OF assms])

lemma before_handler_role:
  assumes "authenticated verify req = Some caller"
  shows "before_handler (Some input) [auth_hook verify, requireRole verify required] req =
     (if has_role required caller then Passed (input, caller)
      else Rejected 403 ''Insufficient permissions'')"
  by (simp add: before_handler_def auth_hook_accepts [OF assms] requireRole_accepts [OF assms])

lemma before_handler_role_alone:
  assumes "authenticated verify req = Some caller"
  shows "before_handler (Some input) [requireRole verify required] req =
     (if has_role required caller then Passed (input, caller)
      else Rejected 403 ''Insufficient permissions'')"
  using requireRole_accepts [OF assms, of required "request_user req"]
  by (simp add: before_handler_def)

lemma guarded_unauthenticated:
  assumes "parsed \<noteq> None" and "\<not> credential_accepted verify req"
  shows "\<exists>m. guarded parsed (auth_hook verify # hooks) req s handler =
    (Reply 401 (Entity_message m), s)"
proof -
  obtain input where p: "parsed = Some input"
    using assms(1) by auto
  obtain m where "before_handler (Some input) (auth_hook verify # hooks) req = Rejected 401 m"
    using before_handler_unauthenticated(2) [OF assms(2), where input = input and hooks = hooks]
    by blast
  then show ?thesis by (simp add: guarded_def p)
qed

lemma staged_unauthenticated:
  assumes "parsed \<noteq> None" and "\<not> credential_accepted verify req"
  shows "\<exists>m. map_staged f (before_handler parsed (auth_hook verify # hooks) req) = Rejected 401 m"
proof -
  obtain input where p: "parsed = Some input"
    using assms(1) by auto
  obtain m where "before_handler (Some input) (auth_hook verify # hooks) req = Rejected 401 m"
    using before_handler_unauthenticated(2) [OF assms(2), where input = input and hooks = hooks]
    by blast
  then show ?thesis by (simp add: p)
qed

lemma with_param_Some:
  "with_param z param body \<noteq> None \<longleftrightarrow> row_param z param \<noteq> None \<and> body \<noteq> None"
  by (auto simp: with_param_def split: option.splits)

text \<open>
  C7 (amended). A request that passes the schema check of its route and whose bearer
  credential is missing, malformed or rejected is answered 401 by a route guarded by
  \<^verbatim>\<open>requireRole\<close>, alone or after \<^verbatim>\<open>requireAuth\<close> as the routes register it: never 500,
  never 403. A request that fails the schema check is answered 400 before any hook runs,
  whatever its credential. A 403 is sent only to a request whose credential was accepted.
  The routes that update and delete a publication, award a badge and create a policy are
  instances: without an accepted credential a request they find well-formed is answered
  401, with the store unchanged.
\<close>

theorem role_gate_unauthenticated:
  "(parsed \<noteq> None \<and> \<not> credential_accepted verify req \<longrightarrow>
      staged_status (before_handler parsed [requireRole verify required] req) = Some 401 \<and>
      staged_status (before_handler parsed [auth_hook verify, requireRole verify required] req) =
        Some 401) \<and>
   (parsed = None \<longrightarrow>
      staged_status (before_handler parsed [requireRole verify required] req) = Some 400 \<and>
      staged_status (before_handler parsed [auth_hook verify, requireRole verify required] req) =
        Some 400) \<and>
   (staged_status (before_handler parsed [requireRole verify required] req) = Some 403 \<or>
    staged_status (before_handler parsed [auth_hook verify, requireRole verify required] req) =
      Some 403 \<longrightarrow>
      credential_accepted verify req) \<and>
   (\<not> credential_accepted verify req \<longrightarrow>
      (row_param z param \<noteq> None \<and> publicationSchema z publication \<noteq> None \<longrightarrow>
         (\<exists>m. route_put_publication z verify req s param publication =
            (Reply 401 (Entity_message m), s))) \<and>
      (row_param z param \<noteq> None \<longrightarrow>
         (\<exists>m. route_delete_publication z verify req s param = (Reply 401 (Entity_message m), s))) \<and>
      (awardBadgeSchema z award \<noteq> None \<longrightarrow>
         (\<exists>m. route_post_badge_award z verify lc gw flag net req s now award = Rejected 401 m)) \<and>
      (policySchema z policy \<noteq> None \<longrightarrow>
         (\<exists>m. route_post_policy z verify req s policy = Rejected 401 m)))"
proof -
  have inv: "parsed = None \<longrightarrow>
      staged_status (before_handler parsed [requireRole verify required] req) = Some 400 \<and>
      staged_status (before_handler parsed [auth_hook verify, requireRole verify required] req) =
        Some 400"
    by (simp add: before_handler_invalid staged_status_def)
  have a: "parsed \<noteq> None \<and> \<not> credential_accepted verify req \<longrightarrow>
      staged_status (before_handler parsed [requireRole verify required] req) = Some 401 \<and>
      staged_status (before_handler parsed [auth_hook verify, requireRole verify required] req) =
        Some 401"
  proof (cases parsed)
    case None
    then show ?thesis by simp
  next
    case (Some input)
    show ?thesis
      unfolding Some
      using before_handler_unauthenticated(1) [of verify req input required]
        before_handler_unauthenticated(2) [of verify req input "[requireRole verify required]"]
      by (auto simp: staged_status_def)
  qed
  have c: "staged_status (before_handler parsed [requireRole verify required] req) = Some 403 \<or>
    staged_status (before_handler parsed [auth_hook verify, requireRole verify required] req) =
      Some 403 \<longrightarrow> credential_accepted verify req"
    using a inv by (cases parsed) auto
  have d: "(row_param z param \<noteq> None \<and> publicationSchema z publication \<noteq> None \<longrightarrow>
         (\<exists>m. route_put_publication z verify req s param publication =
            (Reply 401 (Entity_message m), s))) \<and>
      (row_param z param \<noteq> None \<longrightarrow>
         (\<exists>m. route_delete_publication z verify req s param = (Reply 401 (Entity_message m), s))) \<and>
      (awardBadgeSchema z award \<noteq> None \<longrightarrow>
         (\<exists>m. route_post_badge_award z verify lc gw flag net req s now award = Rejected 401 m)) \<and>
      (policySchema z policy \<noteq> None \<longrightarrow>
         (\<exists>m. route_post_policy z verify req s policy = Rejected 401 m))"
    if n: "\<not> credential_accepted verify req"
  proof -
    have "\<exists>m. route_put_publication z verify req s param publication =
            (Reply 401 (Entity_message m), s)"
      if "row_param z param \<noteq> None \<and> publicationSchema z publication \<noteq> None"
      unfolding route_put_publication_def
      by (rule guarded_unauthenticated [OF _ n])
        (use that in \<open>auto simp: with_param_def split: option.splits\<close>)
    moreover have "\<exists>m. route_delete_publication z verify req s param =
            (Reply 401 (Entity_message m), s)"
      if "row_param z param \<noteq> None"
      unfolding route_delete_publication_def
      by (rule guarded_unauthenticated [OF that n])
    moreover have "\<exists>m. route_post_badge_award z verify lc gw flag net req s now award = Rejected 401 m"
      if "awardBadgeSchema z award \<noteq> None"
      unfolding route_post_badge_award_def
      by (rule staged_unauthenticated [OF that n])
    moreover have "\<exists>m. route_post_policy z verify req s policy = Rejected 401 m"
      if "policySchema z policy \<noteq> None"
      unfolding route_post_policy_def
      by (rule staged_unauthenticated [OF that n])
    ultimately show ?thesis by blast
  qed
  show ?thesis using a inv c d by blast
qed


text \<open>The example parameters and bodies under the example schema library.\<close>

lemma example_params:
  "row_param example_zod (example_param 1) = Some 1"
  "row_param example_zod (example_param 2) = Some 2"
  "row_param example_zod (example_param 3) = Some 3"
  "row_param example_zod (utf16 ''x'') = None"
  "row_param example_zod (example_param (Suc 0)) = Some (Suc 0)"
  by (simp_all add: row_param_def example_zod_def example_param_def utf16_def)

lemma example_schemas:
  "personalProjectSchema example_zod (example_project_json (utf16 ''Compiler'')) =
     Some example_project_data"
  "personalProjectSchema example_zod (example_project_json []) = None"
  "publicationSchema example_zod (example_publication_json (utf16 ''On proofs'')) =
     Some example_publication_data"
  "publicationSchema example_zod (example_publication_json []) = None"
  "experienceSchema example_experience_json = Some example_experience_data"
  by (simp_all add: personalProjectSchema_def publicationSchema_def experienceSchema_def
      example_project_json_def example_publication_json_def example_experience_json_def
      example_project_data_def example_publication_data_def example_experience_data_def
      required_text_def optional_url_def optional_text_def optional_years_def level_of_def
      bounded_year_def example_zod_def utf16_def)

text \<open>
  Without any credential, a publication update with an empty title and a publication
  delete whose parameter is no cuid are answered 400, not 401.
\<close>

theorem role_gate_unauthenticated_counterexample:
  "credential_accepted example_verify \<lparr>authorization = None, request_user = None\<rparr> = False \<and>
   route_put_publication example_zod example_verify \<lparr>authorization = None, request_user = None\<rparr>
     store_owned (example_param 2) (example_publication_json []) =
     (Reply 400 (Entity_message ''Bad Request''), store_owned) \<and>
   route_delete_publication example_zod example_verify \<lparr>authorization = None, request_user = None\<rparr>
     store_owned (utf16 ''x'') = (Reply 400 (Entity_message ''Bad Request''), store_owned)"
  by (simp add: credential_accepted_def route_put_publication_def route_delete_publication_def
      guarded_def before_handler_def with_param_def example_params example_schemas)

theorem role_gate_unauthenticated_witness:
  "(\<exists>m. route_put_publication example_zod example_verify
      \<lparr>authorization = None, request_user = None\<rparr> store_owned (example_param 2)
      (example_publication_json (utf16 ''On proofs'')) =
      (Reply 401 (Entity_message m), store_owned)) \<and>
   (\<exists>m. route_delete_publication example_zod example_verify (bearer ''bad'') store_owned
      (example_param 2) = (Reply 401 (Entity_message m), store_owned)) \<and>
   staged_status (before_handler (None :: unit option)
      [auth_hook example_verify, requireRole example_verify [''FACULTY'']]
      \<lparr>authorization = None, request_user = None\<rparr>) = Some 400 \<and>
   staged_status (before_handler (Some ())
      [auth_hook example_verify, requireRole example_verify [''FACULTY'']]
      (bearer ''good'')) = Some 403"
proof -
  let ?none = "\<lparr>authorization = None, request_user = None\<rparr>"
  have a: "\<not> credential_accepted example_verify ?none"
    by (simp add: credential_accepted_def)
  have b: "\<not> credential_accepted example_verify (bearer ''bad'')"
    by (simp add: credential_accepted_def example_verify_def bearer_def)
  have p: "row_param example_zod (example_param 2) \<noteq> None"
    "publicationSchema example_zod (example_publication_json (utf16 ''On proofs'')) \<noteq> None"
    by (simp_all add: example_params example_schemas)
  have c: "staged_status (before_handler (Some ())
      [auth_hook example_verify, requireRole example_verify [''FACULTY'']]
      (bearer ''good'')) = Some 403"
    by (simp add: before_handler_def staged_status_def auth_hook_def requireAuth_def
        requireRole_def example_verify_def bearer_def send_def token_user_def)
  note w1 = role_gate_unauthenticated [where verify = example_verify and req = ?none
      and z = example_zod and param = "example_param 2" and s = store_owned
      and publication = "example_publication_json (utf16 ''On proofs'')"
      and parsed = "None :: unit option" and required = "[''FACULTY'']"]
  note w2 = role_gate_unauthenticated [where verify = example_verify and req = "bearer ''bad''"
      and z = example_zod and param = "example_param 2" and s = store_owned]
  from w1 a p have "\<exists>m. route_put_publication example_zod example_verify ?none store_owned
      (example_param 2) (example_publication_json (utf16 ''On proofs'')) =
      (Reply 401 (Entity_message m), store_owned)"
    by blast
  moreover from w2 b p(1) have "\<exists>m. route_delete_publication example_zod example_verify
      (bearer ''bad'') store_owned (example_param 2) = (Reply 401 (Entity_message m), store_owned)"
    by blast
  moreover from w1 have "staged_status (before_handler (None :: unit option)
      [auth_hook example_verify, requireRole example_verify [''FACULTY'']] ?none) = Some 400"
    by blast
  ultimately show ?thesis using c by blast
qed

subsection \<open>Ownership of projects, publications and experiences\<close>

lemma guarded_invalid:
  "guarded None hooks req s handler = (Reply 400 (Entity_message ''Bad Request''), s)"
  by (simp add: guarded_def before_handler_def)

lemma guarded_auth:
  assumes "authenticated verify req = Some caller"
  shows "guarded (Some input) [auth_hook verify] req s handler = handler input caller"
  by (simp add: guarded_def before_handler_auth [OF assms])

lemma guarded_role:
  assumes "authenticated verify req = Some caller"
  shows "guarded (Some input) [auth_hook verify, requireRole verify required] req s handler =
     (if has_role required caller then handler input caller
      else (Reply 403 (Entity_message ''Insufficient permissions''), s))"
  by (simp add: guarded_def before_handler_role [OF assms])

lemma find_not_owned:
  assumes "\<not> list_ex (\<lambda>x. P x \<and> Q x) xs"
  shows "find (\<lambda>x. P x \<and> Q x) xs = None"
    and "find P xs = None \<or> (\<exists>y. find P xs = Some y \<and> \<not> Q y)"
proof -
  show "find (\<lambda>x. P x \<and> Q x) xs = None"
    using assms by (simp add: find_None_iff list_ex_iff)
  show "find P xs = None \<or> (\<exists>y. find P xs = Some y \<and> \<not> Q y)"
  proof (cases "find P xs")
    case None
    then show ?thesis by simp
  next
    case (Some y)
    then have "y \<in> set xs \<and> P y"
      by (auto simp: find_Some_iff)
    then show ?thesis using assms Some by (auto simp: list_ex_iff)
  qed
qed

text \<open>
  C6 (amended). For an authenticated caller whose request passes the schema check of the
  route, and a project or an experience the caller does not own, whether the id belongs
  to another user or to no row at all, update and delete are answered 404 and the store is
  unchanged. For a publication the same holds when the caller holds the role FACULTY or
  HEAD_ADMIN; a caller with neither role is answered 403 by the role check, which runs
  before the ownership check, and the store is unchanged. A request whose path parameter
  is no cuid or whose body fails the schema is answered 400 before either check, and the
  store is unchanged.
\<close>

theorem ownership_guard:
  assumes "authenticated verify req = Some caller" and "row_param z param = Some i"
  shows "(\<not> owns_project s (sub caller) i \<longrightarrow>
       (personalProjectSchema z pj \<noteq> None \<longrightarrow>
          route_put_project z verify req s param pj =
            (Reply 404 (Entity_message ''Project not found''), s)) \<and>
       route_delete_project z verify req s param =
         (Reply 404 (Entity_message ''Project not found''), s)) \<and>
    (\<not> owns_experience s (sub caller) i \<longrightarrow>
       (experienceSchema ej \<noteq> None \<longrightarrow>
          route_put_experience z verify req s param ej =
            (Reply 404 (Entity_message ''Experience not found or access denied''), s)) \<and>
       route_delete_experience z verify req s param =
         (Reply 404 (Entity_message ''Experience not found''), s)) \<and>
    (\<not> owns_publication s (sub caller) i \<longrightarrow>
       (has_role publication_roles caller \<longrightarrow>
          (publicationSchema z bj \<noteq> None \<longrightarrow>
             route_put_publication z verify req s param bj =
               (Reply 404 (Entity_message ''Publication not found''), s)) \<and>
          route_delete_publication z verify req s param =
            (Reply 404 (Entity_message ''Publication not found''), s)) \<and>
       (\<not> has_role publication_roles caller \<longrightarrow>
          (publicationSchema z bj \<noteq> None \<longrightarrow>
             route_put_publication z verify req s param bj =
               (Reply 403 (Entity_message ''Insufficient permissions''), s)) \<and>
          route_delete_publication z verify req s param =
            (Reply 403 (Entity_message ''Insufficient permissions''), s))) \<and>
    (personalProjectSchema z pj = None \<longrightarrow>
       route_put_project z verify req s param pj = (Reply 400 (Entity_message ''Bad Request''), s)) \<and>
    (experienceSchema ej = None \<longrightarrow>
       route_put_experience z verify req s param ej =
         (Reply 400 (Entity_message ''Bad Request''), s)) \<and>
    (publicationSchema z bj = None \<longrightarrow>
       route_put_publication z verify req s param bj =
         (Reply 400 (Entity_message ''Bad Request''), s)) \<and>
    (row_param z other = None \<longrightarrow>
       route_put_project z verify req s other pj = (Reply 400 (Entity_message ''Bad Request''), s) \<and>
       route_delete_project z verify req s other = (Reply 400 (Entity_message ''Bad Request''), s) \<and>
       route_put_experience z verify req s other ej =
         (Reply 400 (Entity_message ''Bad Request''), s) \<and>
       route_delete_experience z verify req s other =
         (Reply 400 (Entity_message ''Bad Request''), s) \<and>
       route_put_publication z verify req s other bj =
         (Reply 400 (Entity_message ''Bad Request''), s) \<and>
       route_delete_publication z verify req s other =
         (Reply 400 (Entity_message ''Bad Request''), s))"
proof -
  note ga = guarded_auth [OF assms(1)] and gr = guarded_role [OF assms(1)]
  have p: "(personalProjectSchema z pj \<noteq> None \<longrightarrow>
          route_put_project z verify req s param pj =
            (Reply 404 (Entity_message ''Project not found''), s)) \<and>
       route_delete_project z verify req s param =
         (Reply 404 (Entity_message ''Project not found''), s)"
    if "\<not> owns_project s (sub caller) i"
    using find_not_owned(1) [OF that [unfolded owns_project_def]]
    by (auto simp: route_put_project_def route_delete_project_def with_param_def assms(2) ga
        put_project_def delete_project_def)
  have e: "(experienceSchema ej \<noteq> None \<longrightarrow>
          route_put_experience z verify req s param ej =
            (Reply 404 (Entity_message ''Experience not found or access denied''), s)) \<and>
       route_delete_experience z verify req s param =
         (Reply 404 (Entity_message ''Experience not found''), s)"
    if "\<not> owns_experience s (sub caller) i"
    using find_not_owned [OF that [unfolded owns_experience_def]]
    by (auto simp: route_put_experience_def route_delete_experience_def with_param_def assms(2)
        ga put_experience_def delete_experience_def)
  have b: "(has_role publication_roles caller \<longrightarrow>
          (publicationSchema z bj \<noteq> None \<longrightarrow>
             route_put_publication z verify req s param bj =
               (Reply 404 (Entity_message ''Publication not found''), s)) \<and>
          route_delete_publication z verify req s param =
            (Reply 404 (Entity_message ''Publication not found''), s)) \<and>
       (\<not> has_role publication_roles caller \<longrightarrow>
          (publicationSchema z bj \<noteq> None \<longrightarrow>
             route_put_publication z verify req s param bj =
               (Reply 403 (Entity_message ''Insufficient permissions''), s)) \<and>
          route_delete_publication z verify req s param =
            (Reply 403 (Entity_message ''Insufficient permissions''), s))"
    if "\<not> owns_publication s (sub caller) i"
    using find_not_owned(1) [OF that [unfolded owns_publication_def]]
    by (auto simp: route_put_publication_def route_delete_publication_def with_param_def
        assms(2) gr put_publication_def delete_publication_def)
  have v: "(personalProjectSchema z pj = None \<longrightarrow>
       route_put_project z verify req s param pj = (Reply 400 (Entity_message ''Bad Request''), s)) \<and>
    (experienceSchema ej = None \<longrightarrow>
       route_put_experience z verify req s param ej =
         (Reply 400 (Entity_message ''Bad Request''), s)) \<and>
    (publicationSchema z bj = None \<longrightarrow>
       route_put_publication z verify req s param bj =
         (Reply 400 (Entity_message ''Bad Request''), s))"
    by (simp add: route_put_project_def route_put_experience_def route_put_publication_def
        with_param_def assms(2) guarded_invalid)
  have o: "route_put_project z verify req s other pj = (Reply 400 (Entity_message ''Bad Request''), s) \<and>
       route_delete_project z verify req s other = (Reply 400 (Entity_message ''Bad Request''), s) \<and>
       route_put_experience z verify req s other ej =
         (Reply 400 (Entity_message ''Bad Request''), s) \<and>
       route_delete_experience z verify req s other =
         (Reply 400 (Entity_message ''Bad Request''), s) \<and>
       route_put_publication z verify req s other bj =
         (Reply 400 (Entity_message ''Bad Request''), s) \<and>
       route_delete_publication z verify req s other =
         (Reply 400 (Entity_message ''Bad Request''), s)"
    if "row_param z other = None"
    by (simp add: route_put_project_def route_delete_project_def route_put_experience_def
        route_delete_experience_def route_put_publication_def route_delete_publication_def
        with_param_def that guarded_invalid)
  show ?thesis using p e b v o by blast
qed


lemmas owned_defs = store_owned_def empty_store_def bearer_def example_verify_def
  authenticated_def token_user_def

lemmas route_defs = guarded_def before_handler_def with_param_def auth_hook_def requireAuth_def
  requireRole_def publication_roles_def send_def

text \<open>
  The student \<open>u1\<close> asks to update and to delete a publication of \<open>u2\<close>: the answer is
  403, not 404. The same student asks to update a project of \<open>u2\<close> with an empty title:
  the answer is 400, not 404.
\<close>

theorem ownership_guard_counterexample:
  "map_option sub (authenticated example_verify (bearer ''good'')) = Some ''u1'' \<and>
   map publication_userId (publications store_owned) = [''u2''] \<and>
   route_put_publication example_zod example_verify (bearer ''good'') store_owned (example_param 2)
     (example_publication_json (utf16 ''On proofs'')) =
     (Reply 403 (Entity_message ''Insufficient permissions''), store_owned) \<and>
   route_delete_publication example_zod example_verify (bearer ''good'') store_owned
     (example_param 2) =
     (Reply 403 (Entity_message ''Insufficient permissions''), store_owned) \<and>
   map project_userId (personalProjects store_owned) = [''u2''] \<and>
   route_put_project example_zod example_verify (bearer ''good'') store_owned (example_param 1)
     (example_project_json []) = (Reply 400 (Entity_message ''Bad Request''), store_owned)"
  by (simp add: owned_defs route_defs route_put_publication_def route_delete_publication_def
      route_put_project_def example_params example_schemas)

theorem ownership_guard_witness:
  "route_put_project example_zod example_verify (bearer ''faculty'') store_owned (example_param 1)
     (example_project_json (utf16 ''Compiler'')) =
     (Reply 404 (Entity_message ''Project not found''), store_owned) \<and>
   route_delete_experience example_zod example_verify (bearer ''faculty'') store_owned
     (example_param 3) = (Reply 404 (Entity_message ''Experience not found''), store_owned) \<and>
   route_put_publication example_zod example_verify (bearer ''faculty'') store_owned
     (example_param 2) (example_publication_json (utf16 ''On proofs'')) =
     (Reply 404 (Entity_message ''Publication not found''), store_owned) \<and>
   route_delete_publication example_zod example_verify (bearer ''good'') store_owned
     (example_param 2) =
     (Reply 403 (Entity_message ''Insufficient permissions''), store_owned) \<and>
   route_put_experience example_zod example_verify (bearer ''faculty'') store_owned
     (utf16 ''x'') example_experience_json =
     (Reply 400 (Entity_message ''Bad Request''), store_owned)"
proof -
  have f: "authenticated example_verify (bearer ''faculty'') = Some
      \<lparr>sub = ''f1'', user_ident = ''f1'', user_email = [], user_roles = [''FACULTY''],
       user_displayName = None\<rparr>" (is "_ = Some ?f")
    by (simp add: owned_defs or_str_def)
  have g: "authenticated example_verify (bearer ''good'') = Some
      \<lparr>sub = ''u1'', user_ident = ''u1'', user_email = [], user_roles = [''STUDENT''],
       user_displayName = None\<rparr>" (is "_ = Some ?g")
    by (simp add: owned_defs or_str_def)
  have n: "\<not> owns_project store_owned (sub ?f) 1" "\<not> owns_experience store_owned (sub ?f) 3"
    "\<not> owns_publication store_owned (sub ?f) 2" "\<not> owns_publication store_owned (sub ?g) 2"
    by (simp_all add: owns_project_def owns_experience_def owns_publication_def owned_defs)
  have r: "has_role publication_roles ?f" "\<not> has_role publication_roles ?g"
    by (simp_all add: has_role_def publication_roles_def)
  have v: "personalProjectSchema example_zod (example_project_json (utf16 ''Compiler'')) \<noteq> None"
    "publicationSchema example_zod (example_publication_json (utf16 ''On proofs'')) \<noteq> None"
    by (simp_all add: example_schemas)
  from ownership_guard [OF f example_params(1), where s = store_owned
      and pj = "example_project_json (utf16 ''Compiler'')"] n(1) v(1)
  have "route_put_project example_zod example_verify (bearer ''faculty'') store_owned
     (example_param 1) (example_project_json (utf16 ''Compiler'')) =
     (Reply 404 (Entity_message ''Project not found''), store_owned)"
    by blast
  moreover
  from ownership_guard [OF f example_params(3), where s = store_owned and other = "utf16 ''x''"
      and ej = example_experience_json] n(2) example_params(4)
  have "route_delete_experience example_zod example_verify (bearer ''faculty'') store_owned
     (example_param 3) = (Reply 404 (Entity_message ''Experience not found''), store_owned)"
    and "route_put_experience example_zod example_verify (bearer ''faculty'') store_owned
     (utf16 ''x'') example_experience_json =
     (Reply 400 (Entity_message ''Bad Request''), store_owned)"
    by blast+
  moreover
  from ownership_guard [OF f example_params(2), where s = store_owned
      and bj = "example_publication_json (utf16 ''On proofs'')"] n(3) r(1) v(2)
  have "route_put_publication example_zod example_verify (bearer ''faculty'') store_owned
     (example_param 2) (example_publication_json (utf16 ''On proofs'')) =
     (Reply 404 (Entity_message ''Publication not found''), store_owned)"
    by blast
  moreover
  from ownership_guard [OF g example_params(2), where s = store_owned] n(4) r(2)
  have "route_delete_publication example_zod example_verify (bearer ''good'') store_owned
     (example_param 2) =
     (Reply 403 (Entity_message ''Insufficient permissions''), store_owned)"
    by blast
  ultimately show ?thesis by blast
qed

subsection \<open>Profile enrichment\<close>

lemma find_profile_Some:
  assumes "awards_reference_definitions s"
  shows "\<exists>found. find_profile s uid = Some found \<and> map_option fst found = profiles s uid"
proof -
  obtain ubs where "find_user_badges s uid = Some ubs"
    using find_user_badges_Some [OF assms] by blast
  then show ?thesis by (auto simp: find_profile_def split: option.splits)
qed

lemma fetch_identity_unavailable:
  assumes "gateway_unavailable gw uid"
  shows "fetch_identity gw uid = (None, None)"
  using assms unfolding gateway_unavailable_def fetch_identity_def by (auto split: http.splits)

lemma profile_upsert_references:
  assumes "awards_reference_definitions s" and "profile_upsert s now uid upd cre = (s', p)"
  shows "awards_reference_definitions s'"
  using assms profile_upsert_tables [OF assms(2)] unfolding awards_reference_definitions_def by simp

lemma enriched_profile_replies:
  assumes "awards_reference_definitions s"
  shows "\<exists>view s'. enriched_profile gw s now uid = (Reply 200 view, s') \<and>
    awards_reference_definitions s'"
proof -
  obtain found where f: "find_profile s uid = Some found"
    using find_profile_Some [OF assms] by blast
  obtain userInfo collegeName where i: "fetch_identity gw uid = (userInfo, collegeName)"
    by (cases "fetch_identity gw uid") simp
  obtain s' p where u: "profile_upsert s now uid (\<lambda>p. p\<lparr>name := Option.bind userInfo displayName\<rparr>)
      (\<lambda>p. p\<lparr>name := Option.bind userInfo displayName\<rparr>) = (s', p)"
    by (cases "profile_upsert s now uid (\<lambda>p. p\<lparr>name := Option.bind userInfo displayName\<rparr>)
      (\<lambda>p. p\<lparr>name := Option.bind userInfo displayName\<rparr>)") simp
  have r: "awards_reference_definitions s'"
    using profile_upsert_references [OF assms u] .
  obtain ubs where b: "find_user_badges s' uid = Some ubs"
    using find_user_badges_Some [OF r] by blast
  show ?thesis
    unfolding enriched_profile_def f i using u b r assms by (auto simp: Let_def)
qed

lemma or_str_or_opt_None: "or_str (or_opt a None) [] = or_str a []"
  by (simp add: or_str_def or_opt_def truthy_def split: option.splits)

lemma compose_profile_fields:
  "view_name (compose_profile s uid found userInfo collegeName) =
     or_str (or_opt (Option.bind (map_option fst found) name) (Option.bind userInfo displayName)) []"
  "view_skills (compose_profile s uid found userInfo collegeName) =
     (case map_option fst found of None \<Rightarrow> [] | Some q \<Rightarrow> skills q)"
  "view_displayName (compose_profile s uid found userInfo collegeName) =
     or_str (Option.bind userInfo displayName) []"
  "view_email (compose_profile s uid found userInfo collegeName) =
     or_str (Option.bind userInfo email) []"
  "view_avatarUrl (compose_profile s uid found userInfo collegeName) =
     or_str (Option.bind userInfo avatarUrl) []"
  "view_collegeName (compose_profile s uid found userInfo collegeName) = collegeName"
  "view_collegeId (compose_profile s uid found userInfo collegeName) =
     (case Option.bind userInfo collegeId of None \<Rightarrow> [] | Some c \<Rightarrow> c)"
  "view_collegeMemberId (compose_profile s uid found userInfo collegeName) =
     or_str (Option.bind userInfo collegeMemberId) []"
  "view_roles (compose_profile s uid found userInfo collegeName) =
     (case Option.bind userInfo roles of None \<Rightarrow> [] | Some rs \<Rightarrow> rs)"
  by (simp_all add: compose_profile_def Let_def)

text \<open>
  C4. Both enriched reads answer 200 with a profile view whatever the gateway does. When
  the lookup of the user fails (timeout, network error, a status that is not 2xx) the
  store is unchanged, the view carries the stored name and skills, and the fields that come
  from the identity service are empty: display name, email, avatar, college name, college
  id, college member id and roles. The store is one in which every award has its badge
  definition, as the view includes the user's awards with their definitions.
\<close>

theorem enrichment_absorbs_gateway_failure:
  assumes "awards_reference_definitions s"
  shows "(\<exists>view s'. get_profile_me gw s now caller = (Reply 200 view, s')) \<and>
    (\<exists>view s'. get_profile_user gw s now uid = (Reply 200 view, s')) \<and>
    (gateway_unavailable gw uid \<longrightarrow>
       (\<exists>view. get_profile_user gw s now uid = (Reply 200 view, s) \<and>
          view_name view = or_str (Option.bind (profiles s uid) name) [] \<and>
          view_skills view = current_skills s uid \<and>
          view_displayName view = [] \<and> view_email view = [] \<and> view_avatarUrl view = [] \<and>
          view_collegeName view = None \<and> view_collegeId view = [] \<and>
          view_collegeMemberId view = [] \<and> view_roles view = [])) \<and>
    (gateway_unavailable gw (sub caller) \<longrightarrow>
       (\<exists>view. get_profile_me gw s now caller = (Reply 200 view, s) \<and>
          view_name view = or_str (Option.bind (profiles s (sub caller)) name) [] \<and>
          view_skills view = current_skills s (sub caller) \<and>
          view_displayName view = [] \<and> view_email view = [] \<and> view_avatarUrl view = [] \<and>
          view_collegeName view = None \<and> view_collegeId view = [] \<and>
          view_collegeMemberId view = [] \<and> view_roles view = []))"
proof -
  have a: "\<exists>view s'. enriched_profile gw s now u = (Reply 200 view, s')" for u
    using enriched_profile_replies [OF assms] by blast
  have b: "\<exists>view. enriched_profile gw s now u = (Reply 200 view, s) \<and>
          view_name view = or_str (Option.bind (profiles s u) name) [] \<and>
          view_skills view = current_skills s u \<and>
          view_displayName view = [] \<and> view_email view = [] \<and> view_avatarUrl view = [] \<and>
          view_collegeName view = None \<and> view_collegeId view = [] \<and>
          view_collegeMemberId view = [] \<and> view_roles view = []"
    if g: "gateway_unavailable gw u" for u
  proof -
    obtain found where f: "find_profile s u = Some found" "map_option fst found = profiles s u"
      using find_profile_Some [OF assms] by blast
    have "enriched_profile gw s now u = (Reply 200 (compose_profile s u found None None), s)"
      unfolding enriched_profile_def f(1) fetch_identity_unavailable [OF g]
      by (simp add: truthy_def)
    moreover have "or_str None [] = []"
      by (simp add: or_str_def)
    ultimately show ?thesis
      using f(2) by (simp add: compose_profile_fields or_str_or_opt_None current_skills_def)
  qed
  show ?thesis
    unfolding get_profile_me_def get_profile_user_def using a b by blast
qed


theorem enrichment_absorbs_gateway_failure_witness:
  "\<exists>view. get_profile_user gateway_down store_named 5 ''u1'' = (Reply 200 view, store_named) \<and>
     view_name view = utf16 ''Ann'' \<and> view_skills view = [utf16 ''Go''] \<and>
     view_displayName view = [] \<and> view_email view = [] \<and> view_roles view = []"
proof -
  have a: "awards_reference_definitions store_named"
    by (simp add: awards_reference_definitions_def store_named_def empty_store_def)
  have g: "gateway_unavailable gateway_down ''u1''"
    by (simp add: gateway_unavailable_def gateway_down_def)
  have n: "or_str (Option.bind (profiles store_named ''u1'') name) [] = utf16 ''Ann''"
    by (simp add: store_named_def empty_store_def new_profile_def or_str_def utf16_def)
  have k: "current_skills store_named ''u1'' = [utf16 ''Go'']"
    by (simp add: store_named_def empty_store_def new_profile_def current_skills_def)
  from enrichment_absorbs_gateway_failure [OF a, of gateway_down 5 example_caller "''u1''"] g
  show ?thesis unfolding n k by blast
qed







end
